theory Spec2Isabelle
  imports Main "HOL-Library.Sublist"
begin

section \<open>JavaScript values, strings and thrown errors\<close>

text \<open>
  The action is one JavaScript module, \<^verbatim>\<open>src/index.js\<close>. Its functions are embedded
  as HOL functions of the same names.

  A JavaScript string is modelled by its UTF-8 bytes (\<^typ>\<open>string\<close>), so concatenation is
  \<open>@\<close> and the empty string is \<open>[]\<close>. The primitive values the module handles are the
  constructors of \<open>jsval\<close>; a number is an integer-valued one (what the repository
  metadata holds), printed in plain decimal. A thrown value is an error object with a
  \<open>message\<close>, which is what the runtime, \<^verbatim>\<open>@actions/core\<close> and Octokit throw.
\<close>

datatype jsval =
  JUndefined
| JNull
| JBool bool
| JNum int
| JStr string
| JSymbol string

datatype js_error =
  Error (message: string)
| TypeError (message: string)

text \<open>Truthiness, as tested by \<^verbatim>\<open>if (v)\<close>, \<^verbatim>\<open>v || d\<close> and \<^verbatim>\<open>a && b\<close>.\<close>

fun truthy :: "jsval \<Rightarrow> bool" where
  "truthy JUndefined = False"
| "truthy JNull = False"
| "truthy (JBool b) = b"
| "truthy (JNum n) = (n \<noteq> 0)"
| "truthy (JStr s) = (s \<noteq> [])"
| "truthy (JSymbol d) = True"

text \<open>Decimal digits of a natural number, most significant first.\<close>

fun digits10 :: "nat \<Rightarrow> string" where
  "digits10 n =
     (if n < 10 then [char_of (48 + n)]
      else digits10 (n div 10) @ [char_of (48 + n mod 10)])"

declare digits10.simps [simp del]

definition show_int :: "int \<Rightarrow> string" where
  "show_int i = (if i < 0 then CHR ''-'' # digits10 (nat (- i)) else digits10 (nat i))"

text \<open>
  The string coercion of a template literal \<^verbatim>\<open>`${v}`\<close>: the abstract operation ToString.
  It throws a TypeError on a Symbol and on nothing else.
\<close>

fun ToString :: "jsval \<Rightarrow> js_error + string" where
  "ToString JUndefined = Inr ''undefined''"
| "ToString JNull = Inr ''null''"
| "ToString (JBool b) = Inr (if b then ''true'' else ''false'')"
| "ToString (JNum n) = Inr (show_int n)"
| "ToString (JStr s) = Inr s"
| "ToString (JSymbol d) = Inl (TypeError ''Cannot convert a Symbol value to a string'')"

text \<open>
  The method call \<^verbatim>\<open>v.toString()\<close>: reading a property of \<^verbatim>\<open>undefined\<close> or \<^verbatim>\<open>null\<close>
  throws a TypeError; every other primitive has the method.
\<close>

fun toString :: "jsval \<Rightarrow> js_error + string" where
  "toString JUndefined =
     Inl (TypeError ''Cannot read properties of undefined (reading 'toString')'')"
| "toString JNull =
     Inl (TypeError ''Cannot read properties of null (reading 'toString')'')"
| "toString (JBool b) = Inr (if b then ''true'' else ''false'')"
| "toString (JNum n) = Inr (show_int n)"
| "toString (JStr s) = Inr s"
| "toString (JSymbol d) = Inr (''Symbol('' @ d @ '')'')"

section \<open>The greeting\<close>

text \<open>
  \<^verbatim>\<open>export function createGreeting(prefix, name) { return `${prefix}, ${name}!`; }\<close>
  The two substitutions are coerced from left to right. The parameters \<^verbatim>\<open>prefix\<close> and
  \<^verbatim>\<open>name\<close> are \<open>prefix_str\<close> and \<open>name_str\<close> here.
\<close>

definition createGreeting :: "jsval \<Rightarrow> jsval \<Rightarrow> js_error + string" where
  "createGreeting prefix_str name_str =
     (case ToString prefix_str of
        Inl e \<Rightarrow> Inl e
      | Inr p \<Rightarrow>
          (case ToString name_str of
             Inl e \<Rightarrow> Inl e
           | Inr n \<Rightarrow> Inr (p @ '', '' @ n @ ''!'')))"

section \<open>The host\<close>

text \<open>
  Case mapping and the replacement of dashes act on the ASCII letters and on \<open>-\<close>;
  every other byte is kept. That is what \<^verbatim>\<open>toUpperCase\<close>, \<^verbatim>\<open>toLowerCase\<close> and
  \<^verbatim>\<open>replace(/-/g, '_')\<close> do on the ASCII names and values of the action's inputs.
\<close>

definition upper_char :: "char \<Rightarrow> char" where
  "upper_char c =
     (let n = (of_char c :: nat) in if 97 \<le> n \<and> n \<le> 122 then char_of (n - 32) else c)"

definition lower_char :: "char \<Rightarrow> char" where
  "lower_char c =
     (let n = (of_char c :: nat) in if 65 \<le> n \<and> n \<le> 90 then char_of (n + 32) else c)"

definition toUpperCase :: "string \<Rightarrow> string" where
  "toUpperCase s = map upper_char s"

definition toLowerCase :: "string \<Rightarrow> string" where
  "toLowerCase s = map lower_char s"

definition replace_dashes :: "string \<Rightarrow> string" where
  "replace_dashes s = map (\<lambda>c. if c = CHR ''-'' then CHR ''_'' else c) s"

text \<open>
  The response of \<^verbatim>\<open>octokit.rest.repos.get\<close> (the fields the module reads) and the
  record \<open>getRepoStats\<close> returns. The response's \<^verbatim>\<open>language\<close> and \<^verbatim>\<open>size\<close> are
  \<open>data_language\<close> and \<open>data_size\<close> here, and the result's \<^verbatim>\<open>size\<close> is \<open>size_kb\<close>.
\<close>

record repo_data =
  full_name :: jsval
  stargazers_count :: jsval
  forks_count :: jsval
  open_issues_count :: jsval
  data_language :: jsval
  data_size :: jsval
  created_at :: jsval
  updated_at :: jsval

record repo_stats =
  name :: jsval
  stars :: jsval
  forks :: jsval
  issues :: jsval
  language :: jsval
  size_kb :: jsval
  created :: jsval
  updated :: jsval

text \<open>
  A cell of the summary table is a value or an object \<^verbatim>\<open>{ data: d, header: b }\<close>; every
  row the module builds is an array of two cells.
\<close>

datatype cell = CellObj string bool | CellVal jsval

type_synonym row = "cell \<times> cell"

text \<open>
  Everything outside the module is a field of \<open>host\<close>:
  \<^item> \<open>core_getInput\<close> is \<^verbatim>\<open>core.getInput\<close>, which returns the empty string for an input
    that is not set;
  \<^item> \<open>process_env\<close> is \<^verbatim>\<open>process.env\<close>;
  \<^item> \<open>setOutput_throws n v\<close> is the error \<^verbatim>\<open>core.setOutput(n, v)\<close> throws, if it throws;
  \<^item> \<open>Date_toISOString\<close> is what \<^verbatim>\<open>new Date().toISOString()\<close> returns during the run;
  \<^item> \<open>context_repo_owner\<close> and \<open>context_repo_repo\<close> are \<^verbatim>\<open>github.context.repo.owner\<close>
    and \<^verbatim>\<open>github.context.repo.repo\<close>;
  \<^item> \<open>repos_get token owner repo\<close> is the outcome of
    \<^verbatim>\<open>new Octokit({ auth: token }).rest.repos.get({ owner, repo })\<close>: the response data, or
    the error it rejects with;
  \<^item> \<open>JSON_stringify\<close> is \<^verbatim>\<open>JSON.stringify\<close> on a result record;
  \<^item> \<open>summary_write_throws h t\<close> is the error
    \<^verbatim>\<open>core.summary.addHeading(h).addTable(t).write()\<close> throws, if it throws.
  The log sinks \<^verbatim>\<open>core.info\<close>, \<^verbatim>\<open>core.warning\<close>, \<^verbatim>\<open>core.setSecret\<close> and
  \<^verbatim>\<open>core.setFailed\<close> write a line for the runner and return.
\<close>

record host =
  core_getInput :: "string \<Rightarrow> string"
  process_env :: "string \<Rightarrow> string option"
  setOutput_throws :: "string \<Rightarrow> string \<Rightarrow> js_error option"
  Date_toISOString :: string
  context_repo_owner :: jsval
  context_repo_repo :: jsval
  repos_get :: "jsval \<Rightarrow> jsval \<Rightarrow> jsval \<Rightarrow> js_error + repo_data"
  JSON_stringify :: "repo_stats \<Rightarrow> string"
  summary_write_throws :: "string \<Rightarrow> row list \<Rightarrow> js_error option"

text \<open>
  The calls the module makes to the host, in order, are the trace of a run. A call that
  throws is in the trace too: it was made, and the exception leaves from there.
\<close>

datatype event =
  Info string
| Warning string
| SetOutput string string
| SetSecret string
| SetFailed string
| ReposGet jsval jsval jsval
| SummaryWrite string "row list"

text \<open>
  A statement sequence is a function from the trace so far to its outcome, a thrown
  error or a value, and the trace after it.
\<close>

type_synonym 'a action = "event list \<Rightarrow> (js_error + 'a) \<times> event list"

definition ret :: "'a \<Rightarrow> 'a action" where
  "ret x = (\<lambda>s. (Inr x, s))"

definition lift :: "js_error + 'a \<Rightarrow> 'a action" where
  "lift r = (\<lambda>s. (r, s))"

definition bind :: "'a action \<Rightarrow> ('a \<Rightarrow> 'b action) \<Rightarrow> 'b action" where
  "bind m f = (\<lambda>s. case m s of (Inl e, s') \<Rightarrow> (Inl e, s') | (Inr x, s') \<Rightarrow> f x s')"

definition seq :: "unit action \<Rightarrow> 'a action \<Rightarrow> 'a action" where
  "seq m k = bind m (\<lambda>_. k)"

definition try_catch :: "'a action \<Rightarrow> (js_error \<Rightarrow> 'a action) \<Rightarrow> 'a action" where
  "try_catch m handler =
     (\<lambda>s. case m s of (Inl e, s') \<Rightarrow> handler e s' | (Inr x, s') \<Rightarrow> (Inr x, s'))"

definition host_call :: "event \<Rightarrow> js_error option \<Rightarrow> unit action" where
  "host_call ev err = (\<lambda>s. (case err of Some e \<Rightarrow> Inl e | None \<Rightarrow> Inr (), s @ [ev]))"

definition core_info :: "string \<Rightarrow> unit action" where
  "core_info msg = host_call (Info msg) None"

definition core_warning :: "string \<Rightarrow> unit action" where
  "core_warning msg = host_call (Warning msg) None"

definition core_setSecret :: "string \<Rightarrow> unit action" where
  "core_setSecret secret = host_call (SetSecret secret) None"

definition core_setFailed :: "string \<Rightarrow> unit action" where
  "core_setFailed msg = host_call (SetFailed msg) None"

definition core_setOutput :: "host \<Rightarrow> string \<Rightarrow> string \<Rightarrow> unit action" where
  "core_setOutput h n v = host_call (SetOutput n v) (setOutput_throws h n v)"

definition core_summary_write :: "host \<Rightarrow> string \<Rightarrow> row list \<Rightarrow> unit action" where
  "core_summary_write h heading table =
     host_call (SummaryWrite heading table) (summary_write_throws h heading table)"

definition octokit_repos_get :: "host \<Rightarrow> jsval \<Rightarrow> jsval \<Rightarrow> jsval \<Rightarrow> repo_data action" where
  "octokit_repos_get h token owner repo =
     (\<lambda>s. (repos_get h token owner repo, s @ [ReposGet token owner repo]))"

section \<open>Inputs, time and repository statistics\<close>

text \<open>
  \<^verbatim>\<open>function getInput(name)\<close>: \<^verbatim>\<open>core.getInput\<close> first; when its value is falsy, the
  environment variable \<^verbatim>\<open>`INPUT_${name.replace(/-/g, '_').toUpperCase()}`\<close>, and the
  empty string when that is unset or empty.
\<close>

definition getInput :: "host \<Rightarrow> string \<Rightarrow> string" where
  "getInput h nm =
     (let v = core_getInput h nm in
      if v = [] then
        (let envName = ''INPUT_'' @ toUpperCase (replace_dashes nm) in
         case process_env h envName of
           None \<Rightarrow> []
         | Some w \<Rightarrow> (if w \<noteq> [] then w else []))
      else v)"

definition getBooleanInput :: "host \<Rightarrow> string \<Rightarrow> bool" where
  "getBooleanInput h nm =
     (let input = toLowerCase (getInput h nm) in
      input = ''true'' \<or> input = ''1'' \<or> input = ''yes'')"

definition getCurrentTime :: "host \<Rightarrow> string" where
  "getCurrentTime h = Date_toISOString h"

text \<open>
  \<^verbatim>\<open>export async function getRepoStats(token, owner, repo)\<close>: the request inside \<^verbatim>\<open>try\<close>,
  the result record built from the response; in \<^verbatim>\<open>catch\<close>, a warning and \<^verbatim>\<open>null\<close>
  (\<open>None\<close>).
\<close>

definition getRepoStats :: "host \<Rightarrow> jsval \<Rightarrow> jsval \<Rightarrow> jsval \<Rightarrow> repo_stats option action" where
  "getRepoStats h token owner repo =
     try_catch
       (bind (octokit_repos_get h token owner repo) (\<lambda>repoData.
          ret (Some \<lparr>name = full_name repoData,
                      stars = stargazers_count repoData,
                      forks = forks_count repoData,
                      issues = open_issues_count repoData,
                      language = data_language repoData,
                      size_kb = data_size repoData,
                      created = created_at repoData,
                      updated = updated_at repoData\<rparr>)))
       (\<lambda>error.
          seq (core_warning (''Failed to fetch repository stats: '' @ message error))
              (ret None))"

section \<open>The run\<close>

text \<open>
  The string literals of \<^verbatim>\<open>run\<close> that start with a character outside ASCII: the
  bytes of that character in the source file.
\<close>

definition stars_mark :: string where
  "stars_mark = [CHR 0xE2, CHR 0x80, CHR 0x9A, CHR 0xE2, CHR 0x89, CHR 0xA0, CHR 0xC3, CHR 0xAA]"

definition forks_mark :: string where
  "forks_mark = [CHR 0xEF, CHR 0xA3, CHR 0xBF, CHR 0xC3, CHR 0xBC, CHR 0xC3, CHR 0xA7, CHR 0xC2, CHR 0xA5]"

definition issues_mark :: string where
  "issues_mark = [CHR 0xEF, CHR 0xA3, CHR 0xBF, CHR 0xC3, CHR 0xBC, CHR 0xC3, CHR 0xAA, CHR 0xC3, CHR 0xB5]"

definition language_mark :: string where
  "language_mark = [CHR 0xEF, CHR 0xA3, CHR 0xBF, CHR 0xC3, CHR 0xBC, CHR 0xC3, CHR 0xAC, CHR 0xC3, CHR 0xB9]"

definition summary_heading :: string where
  "summary_heading =
     [CHR 0xEF, CHR 0xA3, CHR 0xBF, CHR 0xC3, CHR 0xBC, CHR 0xC3, CHR 0xA9, CHR 0xC3, CHR 0x98]
     @ '' Hello World Action Results''"

definition fallback_heading :: string where
  "fallback_heading =
     [CHR 0xEF, CHR 0xA3, CHR 0xBF, CHR 0xC3, CHR 0xBC, CHR 0xC3, CHR 0xAC, CHR 0xC3, CHR 0xA4]
     @ '' Hello World Action Results:''"

definition completed_line :: string where
  "completed_line =
     [CHR 0xE2, CHR 0x80, CHR 0x9A, CHR 0xC3, CHR 0xBA, CHR 0xC3, CHR 0x96]
     @ '' Action completed successfully!''"

text \<open>\<^verbatim>\<open>v || d\<close> on a string \<open>v\<close> and on a value \<open>v\<close>.\<close>

definition or_string :: "string \<Rightarrow> string \<Rightarrow> string" where
  "or_string v d = (if v \<noteq> [] then v else d)"

definition or_value :: "jsval \<Rightarrow> jsval \<Rightarrow> jsval" where
  "or_value v d = (if truthy v then v else d)"

text \<open>The four constants of \<^verbatim>\<open>run\<close> that hold the resolved inputs (lines 115 to 118).\<close>

record inputs =
  whoToGreet :: string
  includeTime :: bool
  messagePrefix :: string
  githubToken :: string

definition get_inputs :: "host \<Rightarrow> inputs" where
  "get_inputs h =
     \<lparr>whoToGreet = or_string (getInput h ''who-to-greet'') ''World'',
      includeTime = getBooleanInput h ''include-time'',
      messagePrefix = or_string (getInput h ''message-prefix'') ''Hello'',
      githubToken = getInput h ''github-token''\<rparr>"

text \<open>The five \<^verbatim>\<open>core.info\<close> calls on the resolved inputs (lines 120 to 124).\<close>

definition log_inputs :: "inputs \<Rightarrow> unit action" where
  "log_inputs i =
     seq (core_info ''Starting Hello World Action...'')
    (seq (core_info (''Who to greet: '' @ whoToGreet i))
    (seq (core_info (''Message prefix: '' @ messagePrefix i))
    (seq (core_info (''Include time: '' @ (if includeTime i then ''true'' else ''false'')))
         (core_info (''GitHub token provided: '' @ (if githubToken i \<noteq> [] then ''Yes'' else ''No''))))))"

text \<open>The greeting, logged and set as the output \<^verbatim>\<open>message\<close> (lines 127 to 133).\<close>

definition greeting_step :: "host \<Rightarrow> inputs \<Rightarrow> string action" where
  "greeting_step h i =
     bind (lift (createGreeting (JStr (messagePrefix i)) (JStr (whoToGreet i)))) (\<lambda>greeting.
     seq (core_info (''Generated greeting: '' @ greeting))
    (seq (core_setOutput h ''message'' greeting)
         (ret greeting)))"

text \<open>
  The optional timestamp (lines 136 to 141); the value returned is that of the variable
  \<^verbatim>\<open>currentTime\<close> afterwards.
\<close>

definition time_step :: "host \<Rightarrow> inputs \<Rightarrow> jsval action" where
  "time_step h i =
     (if includeTime i then
        (let currentTime = getCurrentTime h in
         seq (core_info (''Current time: '' @ currentTime))
        (seq (core_setOutput h ''time'' currentTime)
             (ret (JStr currentTime))))
      else ret JNull)"

text \<open>
  The optional repository statistics (lines 144 to 158); the value returned is that of the
  variable \<^verbatim>\<open>repoStats\<close> afterwards. Each template literal is coerced before its
  \<^verbatim>\<open>core.info\<close> call is made.
\<close>

definition stats_step :: "host \<Rightarrow> inputs \<Rightarrow> repo_stats option action" where
  "stats_step h i =
     (if githubToken i \<noteq> [] \<and> truthy (context_repo_owner h) \<and> truthy (context_repo_repo h) then
        seq (core_info ''Fetching repository statistics...'')
       (bind (getRepoStats h (JStr (githubToken i)) (context_repo_owner h) (context_repo_repo h))
          (\<lambda>repoStats.
             case repoStats of
               None \<Rightarrow> ret None
             | Some rs \<Rightarrow>
                 bind (lift (ToString (name rs))) (\<lambda>a.
                 seq (core_info (''Repository: '' @ a))
                (bind (lift (ToString (stars rs))) (\<lambda>b.
                 seq (core_info (stars_mark @ '' Stars: '' @ b))
                (bind (lift (ToString (forks rs))) (\<lambda>c.
                 seq (core_info (forks_mark @ '' Forks: '' @ c))
                (bind (lift (ToString (issues rs))) (\<lambda>d.
                 seq (core_info (issues_mark @ '' Open Issues: '' @ d))
                (bind (lift (ToString (or_value (language rs) (JStr ''Unknown'')))) (\<lambda>e.
                 seq (core_info (language_mark @ '' Language: '' @ e))
                (seq (core_setOutput h ''repo-stats'' (JSON_stringify h rs))
                     (ret (Some rs))))))))))))))
      else ret None)"

text \<open>
  The array \<^verbatim>\<open>summaryTable\<close> (lines 164 to 180). Its elements are evaluated in order, so
  the first \<^verbatim>\<open>toString()\<close> that throws decides the error.
\<close>

definition and_then :: "js_error + 'a \<Rightarrow> ('a \<Rightarrow> js_error + 'b) \<Rightarrow> js_error + 'b" where
  "and_then r f = (case r of Inl e \<Rightarrow> Inl e | Inr x \<Rightarrow> f x)"

definition summaryTable :: "string \<Rightarrow> bool \<Rightarrow> jsval \<Rightarrow> repo_stats option \<Rightarrow> js_error + row list" where
  "summaryTable greeting incl currentTime repoStats =
     and_then
       (case repoStats of
          None \<Rightarrow> Inr []
        | Some rs \<Rightarrow>
            and_then (toString (stars rs)) (\<lambda>s.
            and_then (toString (forks rs)) (\<lambda>f.
            and_then (toString (issues rs)) (\<lambda>i.
            Inr [(CellVal (JStr ''Repository''), CellVal (name rs)),
                 (CellVal (JStr (stars_mark @ '' Stars'')), CellVal (JStr s)),
                 (CellVal (JStr (forks_mark @ '' Forks'')), CellVal (JStr f)),
                 (CellVal (JStr (issues_mark @ '' Open Issues'')), CellVal (JStr i)),
                 (CellVal (JStr (language_mark @ '' Language'')),
                  CellVal (or_value (language rs) (JStr ''Unknown'')))]))))
       (\<lambda>stats_rows.
          Inr ([(CellObj ''Field'' True, CellObj ''Value'' True),
                (CellVal (JStr ''Greeting''), CellVal (JStr greeting))]
               @ (if incl then [(CellVal (JStr ''Timestamp''), CellVal currentTime)] else [])
               @ stats_rows))"

text \<open>
  The summary and its fallback (lines 183 to 191). An object cell in a template literal
  is \<^verbatim>\<open>[object Object]\<close>; \<^verbatim>\<open>summaryTable.slice(1)\<close> is the table without its first row.
\<close>

fun cell_ToString :: "cell \<Rightarrow> js_error + string" where
  "cell_ToString (CellObj d b) = Inr ''[object Object]''"
| "cell_ToString (CellVal v) = ToString v"

definition row_line :: "row \<Rightarrow> js_error + string" where
  "row_line r =
     (case r of (field, val) \<Rightarrow>
        and_then (cell_ToString field) (\<lambda>f.
        and_then (cell_ToString val) (\<lambda>v.
        Inr (''   '' @ f @ '': '' @ v))))"

fun log_rows :: "row list \<Rightarrow> unit action" where
  "log_rows [] = ret ()"
| "log_rows (r # rows) =
     bind (lift (row_line r)) (\<lambda>l. seq (core_info l) (log_rows rows))"

definition write_summary :: "host \<Rightarrow> row list \<Rightarrow> unit action" where
  "write_summary h table =
     try_catch
       (core_summary_write h summary_heading table)
       (\<lambda>_. seq (core_info fallback_heading) (log_rows (drop 1 table)))"

text \<open>
  The body of the outer \<^verbatim>\<open>try\<close> of \<^verbatim>\<open>run\<close>, and \<^verbatim>\<open>run\<close>: a thrown error is caught and
  reported with \<^verbatim>\<open>core.setFailed\<close>.
\<close>

definition run_try :: "host \<Rightarrow> unit action" where
  "run_try h =
     (let i = get_inputs h in
      seq (log_inputs i)
     (bind (greeting_step h i) (\<lambda>greeting.
      bind (time_step h i) (\<lambda>currentTime.
      bind (stats_step h i) (\<lambda>repoStats.
      seq (core_setSecret ''my-secret-value'')
     (bind (lift (summaryTable greeting (includeTime i) currentTime repoStats)) (\<lambda>table.
      seq (write_summary h table)
          (core_info completed_line))))))))"

definition run :: "host \<Rightarrow> unit action" where
  "run h =
     try_catch (run_try h)
       (\<lambda>error. core_setFailed (''Action failed with error: '' @ message error))"

section \<open>The input lookup as the specification words it\<close>

text \<open>
  The specification names the environment variable by uppercasing the input's name,
  replacing its dashes with underscores, and prefixing \<^verbatim>\<open>INPUT_\<close>; the lookup takes the
  host's input store first, the environment variable when the store has nothing, and
  the empty string when neither has a value.
\<close>

definition env_name_spec :: "string \<Rightarrow> string" where
  "env_name_spec nm = ''INPUT_'' @ replace_dashes (toUpperCase nm)"

definition getInput_spec :: "host \<Rightarrow> string \<Rightarrow> string" where
  "getInput_spec h nm =
     (if core_getInput h nm \<noteq> [] then core_getInput h nm
      else case process_env h (env_name_spec nm) of None \<Rightarrow> [] | Some w \<Rightarrow> w)"

section \<open>The hosts of the test suite\<close>

text \<open>
  The mocks of \<^verbatim>\<open>__tests__/index.test.js\<close>: the default inputs, the repository context,
  a summary that can be written, a frozen clock, and a request that rejects with
  \<^verbatim>\<open>new Error('API Error')\<close> (\<open>mock_host\<close>) or resolves with \<open>mockRepoData\<close>
  (\<open>mock_host_resolving\<close>).
\<close>

definition mockRepoData :: repo_data where
  "mockRepoData =
     \<lparr>full_name = JStr ''test-owner/test-repo'',
      stargazers_count = JNum 42,
      forks_count = JNum 7,
      open_issues_count = JNum 3,
      data_language = JStr ''JavaScript'',
      data_size = JNum 1024,
      created_at = JStr ''2023-01-01T00:00:00Z'',
      updated_at = JStr ''2023-12-01T00:00:00Z''\<rparr>"

definition mock_inputs :: "string \<Rightarrow> string" where
  "mock_inputs nm =
     (if nm = ''who-to-greet'' then ''World''
      else if nm = ''message-prefix'' then ''Hello''
      else [])"

definition no_output_error :: "string \<Rightarrow> string \<Rightarrow> js_error option" where
  "no_output_error n v = None"

definition no_summary_error :: "string \<Rightarrow> row list \<Rightarrow> js_error option" where
  "no_summary_error heading table = None"

definition mock_rejected :: "jsval \<Rightarrow> jsval \<Rightarrow> jsval \<Rightarrow> js_error + repo_data" where
  "mock_rejected token owner repo = Inl (Error ''API Error'')"

definition mock_resolved :: "jsval \<Rightarrow> jsval \<Rightarrow> jsval \<Rightarrow> js_error + repo_data" where
  "mock_resolved token owner repo = Inr mockRepoData"

definition mock_stringify :: "repo_stats \<Rightarrow> string" where
  "mock_stringify rs = ''{}''"

definition mock_host :: host where
  "mock_host =
     \<lparr>core_getInput = mock_inputs,
      process_env = Map.empty,
      setOutput_throws = no_output_error,
      Date_toISOString = ''2023-01-01T12:00:00.000Z'',
      context_repo_owner = JStr ''test-owner'',
      context_repo_repo = JStr ''test-repo'',
      repos_get = mock_rejected,
      JSON_stringify = mock_stringify,
      summary_write_throws = no_summary_error\<rparr>"

definition mock_host_resolving :: host where
  "mock_host_resolving = mock_host\<lparr>repos_get := mock_resolved\<rparr>"

text \<open>
  Variations of the mocks: a token among the inputs (the test \<^verbatim>\<open>should fetch repo stats
  when token is provided\<close>), another token, no input at all, an output sink that throws
  \<^verbatim>\<open>new Error('Test error')\<close> (the test \<^verbatim>\<open>should handle errors gracefully\<close>), and a
  summary that cannot be written, as outside GitHub Actions.
\<close>

definition mock_inputs_token :: "string \<Rightarrow> string" where
  "mock_inputs_token nm =
     (if nm = ''who-to-greet'' then ''World''
      else if nm = ''message-prefix'' then ''Hello''
      else if nm = ''github-token'' then ''test-token''
      else [])"

definition mock_inputs_other_token :: "string \<Rightarrow> string" where
  "mock_inputs_other_token nm =
     (if nm = ''who-to-greet'' then ''World''
      else if nm = ''message-prefix'' then ''Hello''
      else if nm = ''github-token'' then ''ghp_another''
      else [])"

definition no_inputs :: "string \<Rightarrow> string" where
  "no_inputs nm = []"

definition output_test_error :: "string \<Rightarrow> string \<Rightarrow> js_error option" where
  "output_test_error n v = Some (Error ''Test error'')"

definition summary_unavailable :: "string \<Rightarrow> row list \<Rightarrow> js_error option" where
  "summary_unavailable heading table =
     Some (Error ''Unable to find environment variable for $GITHUB_STEP_SUMMARY'')"

definition mock_host_token :: host where
  "mock_host_token = mock_host\<lparr>core_getInput := mock_inputs_token\<rparr>"

definition mock_host_other_token :: host where
  "mock_host_other_token = mock_host\<lparr>core_getInput := mock_inputs_other_token\<rparr>"

definition mock_host_unset :: host where
  "mock_host_unset = mock_host\<lparr>core_getInput := no_inputs\<rparr>"

definition mock_host_output_fails :: host where
  "mock_host_output_fails = mock_host\<lparr>setOutput_throws := output_test_error\<rparr>"

definition mock_host_no_summary :: host where
  "mock_host_no_summary = mock_host\<lparr>summary_write_throws := summary_unavailable\<rparr>"

text \<open>
  A host outside GitHub Actions, as the head of \<^verbatim>\<open>src/index.js\<close> describes local
  development: the inputs come from the environment variables only, the request
  resolves, and the summary cannot be written. \<open>local_table\<close> and \<open>mock_table\<close> are the
  summary tables of the runs on \<open>local_host\<close> and on the mocks.
\<close>

definition local_env :: "string \<Rightarrow> string option" where
  "local_env =
     [''INPUT_WHO_TO_GREET'' \<mapsto> ''Local Developer'',
      ''INPUT_INCLUDE_TIME'' \<mapsto> ''true'',
      ''INPUT_MESSAGE_PREFIX'' \<mapsto> ''Hey'',
      ''INPUT_GITHUB_TOKEN'' \<mapsto> ''ghp_your_token_here'']"

definition local_host :: host where
  "local_host =
     mock_host\<lparr>core_getInput := no_inputs,
                process_env := local_env,
                repos_get := mock_resolved,
                summary_write_throws := summary_unavailable\<rparr>"

definition local_table :: "row list" where
  "local_table =
     [(CellObj ''Field'' True, CellObj ''Value'' True),
      (CellVal (JStr ''Greeting''), CellVal (JStr ''Hey, Local Developer!'')),
      (CellVal (JStr ''Timestamp''), CellVal (JStr ''2023-01-01T12:00:00.000Z'')),
      (CellVal (JStr ''Repository''), CellVal (JStr ''test-owner/test-repo'')),
      (CellVal (JStr (stars_mark @ '' Stars'')), CellVal (JStr ''42'')),
      (CellVal (JStr (forks_mark @ '' Forks'')), CellVal (JStr ''7'')),
      (CellVal (JStr (issues_mark @ '' Open Issues'')), CellVal (JStr ''3'')),
      (CellVal (JStr (language_mark @ '' Language'')), CellVal (JStr ''JavaScript''))]"

definition mock_table :: "row list" where
  "mock_table =
     [(CellObj ''Field'' True, CellObj ''Value'' True),
      (CellVal (JStr ''Greeting''), CellVal (JStr ''Hello, World!''))]"

text \<open>
  Hosts on which a step of the run throws: the output \<^verbatim>\<open>time\<close> cannot be set (with the
  inputs of the test \<^verbatim>\<open>should include time when requested\<close>); the response holds a Symbol
  as its language; the response lacks its count of stars.
\<close>

definition mock_inputs_time :: "string \<Rightarrow> string" where
  "mock_inputs_time nm =
     (if nm = ''who-to-greet'' then ''World''
      else if nm = ''message-prefix'' then ''Hello''
      else if nm = ''include-time'' then ''true''
      else [])"

definition time_output_error :: "string \<Rightarrow> string \<Rightarrow> js_error option" where
  "time_output_error n v = (if n = ''time'' then Some (Error ''disk full'') else None)"

definition mock_host_time_fails :: host where
  "mock_host_time_fails =
     mock_host\<lparr>core_getInput := mock_inputs_time, setOutput_throws := time_output_error\<rparr>"

definition symbol_data :: repo_data where
  "symbol_data = mockRepoData\<lparr>data_language := JSymbol ''lang''\<rparr>"

definition mock_resolved_symbol :: "jsval \<Rightarrow> jsval \<Rightarrow> jsval \<Rightarrow> js_error + repo_data" where
  "mock_resolved_symbol token owner repo = Inr symbol_data"

definition mock_host_symbol :: host where
  "mock_host_symbol = mock_host_token\<lparr>repos_get := mock_resolved_symbol\<rparr>"

definition no_stars_data :: repo_data where
  "no_stars_data = mockRepoData\<lparr>stargazers_count := JUndefined\<rparr>"

definition mock_resolved_no_stars :: "jsval \<Rightarrow> jsval \<Rightarrow> jsval \<Rightarrow> js_error + repo_data" where
  "mock_resolved_no_stars token owner repo = Inr no_stars_data"

definition mock_host_no_stars :: host where
  "mock_host_no_stars = mock_host_token\<lparr>repos_get := mock_resolved_no_stars\<rparr>"

section \<open>Observing a trace\<close>

text \<open>
  The part of a trace before the first request for the repository's metadata, and the
  events that report on the run as a whole: the summary and the failure.
\<close>

fun is_ReposGet :: "event \<Rightarrow> bool" where
  "is_ReposGet (ReposGet token owner repo) = True"
| "is_ReposGet e = False"

definition before_fetch :: "event list \<Rightarrow> event list" where
  "before_fetch tr = takeWhile (\<lambda>e. \<not> is_ReposGet e) tr"

fun is_report :: "event \<Rightarrow> bool" where
  "is_report (SummaryWrite heading table) = True"
| "is_report (SetFailed m) = True"
| "is_report e = False"

fun is_SetOutput :: "event \<Rightarrow> bool" where
  "is_SetOutput (SetOutput n v) = True"
| "is_SetOutput e = False"

fun is_SetSecret :: "event \<Rightarrow> bool" where
  "is_SetSecret (SetSecret l) = True"
| "is_SetSecret e = False"

fun is_symbol :: "jsval \<Rightarrow> bool" where
  "is_symbol (JSymbol d) = True"
| "is_symbol v = False"

section \<open>Reasoning about statement sequences\<close>

text \<open>
  \<open>emits m Q\<close>: whatever the trace before, \<open>m\<close> extends it, by events that satisfy \<open>Q\<close>.
  \<open>returns m R\<close>: a value that \<open>m\<close> returns satisfies \<open>R\<close>. \<open>printable\<close> holds of the
  statistics whose name and language a template literal can coerce.
\<close>

definition emits :: "'a action \<Rightarrow> (event \<Rightarrow> bool) \<Rightarrow> bool" where
  "emits m Q \<longleftrightarrow> (\<forall>s. \<exists>evs. snd (m s) = s @ evs \<and> list_all Q evs)"

definition returns :: "'a action \<Rightarrow> ('a \<Rightarrow> bool) \<Rightarrow> bool" where
  "returns m R \<longleftrightarrow> (\<forall>s x s'. m s = (Inr x, s') \<longrightarrow> R x)"

definition printable :: "repo_stats option \<Rightarrow> bool" where
  "printable repoStats \<longleftrightarrow>
     (case repoStats of
        None \<Rightarrow> True
      | Some rs \<Rightarrow>
          (\<exists>l. ToString (name rs) = Inr l)
          \<and> (\<exists>l. ToString (or_value (language rs) (JStr ''Unknown'')) = Inr l))"

text \<open>
  \<open>outputs_strict h m\<close>: a call of \<^verbatim>\<open>core.setOutput\<close> that throws within \<open>m\<close> is the last call
  \<open>m\<close> makes, and \<open>m\<close> ends with its exception. \<open>stats_of\<close> is the record that
  \<open>getRepoStats\<close> builds from a response.
\<close>

definition outputs_strict :: "host \<Rightarrow> 'a action \<Rightarrow> bool" where
  "outputs_strict h m \<longleftrightarrow>
     (\<forall>s. \<exists>evs. snd (m s) = s @ evs
        \<and> (\<forall>n v e. SetOutput n v \<in> set evs \<longrightarrow> setOutput_throws h n v = Some e \<longrightarrow>
              fst (m s) = Inl e \<and> evs \<noteq> [] \<and> last evs = SetOutput n v))"

definition stats_of :: "repo_data \<Rightarrow> repo_stats" where
  "stats_of repoData =
     \<lparr>name = full_name repoData,
      stars = stargazers_count repoData,
      forks = forks_count repoData,
      issues = open_issues_count repoData,
      language = data_language repoData,
      size_kb = data_size repoData,
      created = created_at repoData,
      updated = updated_at repoData\<rparr>"

text \<open>
  The statements of \<open>run_try\<close> before the repository statistics, which leave the
  variables \<^verbatim>\<open>greeting\<close> and \<^verbatim>\<open>currentTime\<close>, and the statements after them.
\<close>

definition run_front :: "host \<Rightarrow> (string \<times> jsval) action" where
  "run_front h =
     (let i = get_inputs h in
      seq (log_inputs i)
     (bind (greeting_step h i) (\<lambda>greeting.
      bind (time_step h i) (\<lambda>currentTime.
      ret (greeting, currentTime)))))"

definition run_back :: "host \<Rightarrow> string \<Rightarrow> jsval \<Rightarrow> repo_stats option \<Rightarrow> unit action" where
  "run_back h greeting currentTime repoStats =
     seq (core_setSecret ''my-secret-value'')
    (bind (lift (summaryTable greeting (includeTime (get_inputs h)) currentTime repoStats))
       (\<lambda>table.
     seq (write_summary h table)
         (core_info completed_line)))"

section \<open>Properties of the greeting\<close>

text \<open>
  C1. For every pair of strings \<open>p\<close> (the prefix) and \<open>n\<close> (the name), \<open>createGreeting\<close>
  returns (it does not throw) exactly \<open>p\<close>, then a comma and a space, then \<open>n\<close>, then an
  exclamation mark; the second and third conjuncts are the cases of an empty prefix and
  of an empty name. The result is a function of the two arguments alone.
\<close>

theorem createGreeting_strings:
  "createGreeting (JStr p) (JStr n) = Inr (p @ '', '' @ n @ ''!'')
   \<and> createGreeting (JStr []) (JStr n) = Inr ('', '' @ n @ ''!'')
   \<and> createGreeting (JStr p) (JStr []) = Inr (p @ '', !'')"
  by (simp add: createGreeting_def)

text \<open>
  C10. An argument of \<open>createGreeting\<close> that is \<^verbatim>\<open>null\<close> or \<^verbatim>\<open>undefined\<close> is rendered
  by the coercion of the template literal, as the text \<^verbatim>\<open>null\<close> or \<^verbatim>\<open>undefined\<close>, and
  the call returns: with a string as the other argument, and with both arguments
  nullish.
\<close>

theorem createGreeting_nullish:
  "createGreeting JNull (JStr n) = Inr (''null, '' @ n @ ''!'')
   \<and> createGreeting (JStr p) JUndefined = Inr (p @ '', undefined!'')
   \<and> createGreeting JUndefined (JStr n) = Inr (''undefined, '' @ n @ ''!'')
   \<and> createGreeting (JStr p) JNull = Inr (p @ '', null!'')
   \<and> createGreeting JNull JNull = Inr ''null, null!''
   \<and> createGreeting JNull JUndefined = Inr ''null, undefined!''
   \<and> createGreeting JUndefined JNull = Inr ''undefined, null!''
   \<and> createGreeting JUndefined JUndefined = Inr ''undefined, undefined!''"
  by (simp add: createGreeting_def)

section \<open>Properties of the input lookup\<close>

lemma upper_char_dash:
  "upper_char (if c = CHR ''-'' then CHR ''_'' else c) =
   (if upper_char c = CHR ''-'' then CHR ''_'' else upper_char c)"
proof (cases "c = CHR ''-''")
  case True
  then show ?thesis by (simp add: upper_char_def)
next
  case False
  have "upper_char c \<noteq> CHR ''-''"
  proof
    assume a: "upper_char c = CHR ''-''"
    show False
    proof (cases "97 \<le> (of_char c :: nat) \<and> (of_char c :: nat) \<le> 122")
      case True
      then have "upper_char c = char_of ((of_char c :: nat) - 32)"
        by (simp add: upper_char_def)
      with a have "(of_char (char_of ((of_char c :: nat) - 32)) :: nat) = of_char (CHR ''-'')"
        by simp
      then have "((of_char c :: nat) - 32) mod 256 = 45" by simp
      moreover have "((of_char c :: nat) - 32) mod 256 = (of_char c :: nat) - 32"
        using True by (intro mod_less) linarith
      ultimately show False using True by linarith
    next
      case False
      with a \<open>c \<noteq> CHR ''-''\<close> show False by (simp add: upper_char_def Let_def)
    qed
  qed
  with False show ?thesis by simp
qed

lemma toUpperCase_replace_dashes:
  "toUpperCase (replace_dashes nm) = replace_dashes (toUpperCase nm)"
  by (simp add: toUpperCase_def replace_dashes_def upper_char_dash)

text \<open>
  C6. For every input name, \<open>getInput\<close> is the lookup the specification describes: the
  value of the host's input store when that is not empty; otherwise the value of the
  environment variable named by the uppercased name with its dashes replaced by
  underscores and \<^verbatim>\<open>INPUT_\<close> in front; and the empty string when neither has a value.
  It is a total function to strings: no lookup fails.
\<close>

theorem getInput_refines_spec:
  "getInput h nm = getInput_spec h nm"
  by (simp add: getInput_def getInput_spec_def env_name_spec_def toUpperCase_replace_dashes
      Let_def split: option.splits)

section \<open>Properties of the repository statistics\<close>

text \<open>
  C3. Whatever the token, the owner and the repository, when the request for the
  repository's metadata rejects with an error, \<open>getRepoStats\<close> returns \<^verbatim>\<open>null\<close> (the
  result is \<open>Inr None\<close>: nothing is thrown to the caller), and what it adds to the trace
  is the request and one warning, which ends with the error's message.
\<close>

theorem getRepoStats_rejected:
  "repos_get h token owner repo = Inl err \<Longrightarrow>
   getRepoStats h token owner repo s =
     (Inr None,
      s @ [ReposGet token owner repo,
           Warning (''Failed to fetch repository stats: '' @ message err)])"
  by (simp add: getRepoStats_def try_catch_def bind_def seq_def octokit_repos_get_def
      core_warning_def host_call_def ret_def)

theorem getRepoStats_rejected_witness:
  "repos_get mock_host (JStr ''token'') (JStr ''test-owner'') (JStr ''test-repo'')
     = Inl (Error ''API Error'')
   \<and> getRepoStats mock_host (JStr ''token'') (JStr ''test-owner'') (JStr ''test-repo'') []
     = (Inr None,
        [ReposGet (JStr ''token'') (JStr ''test-owner'') (JStr ''test-repo''),
         Warning ''Failed to fetch repository stats: API Error''])"
  using getRepoStats_rejected [of mock_host "JStr ''token''" "JStr ''test-owner''"
      "JStr ''test-repo''" "Error ''API Error''" "[]"]
  by (simp add: mock_host_def mock_rejected_def)

text \<open>
  C4. When the request resolves, \<open>getRepoStats\<close> returns the record whose fields are the
  response's fields under their new names, each value as it came: \<^verbatim>\<open>full_name\<close> as
  \<^verbatim>\<open>name\<close>, \<^verbatim>\<open>stargazers_count\<close> as \<^verbatim>\<open>stars\<close>, \<^verbatim>\<open>forks_count\<close> as \<^verbatim>\<open>forks\<close>,
  \<^verbatim>\<open>open_issues_count\<close> as \<^verbatim>\<open>issues\<close>, \<^verbatim>\<open>language\<close>, \<^verbatim>\<open>size\<close>, \<^verbatim>\<open>created_at\<close> as
  \<^verbatim>\<open>created\<close> and \<^verbatim>\<open>updated_at\<close> as \<^verbatim>\<open>updated\<close>.
\<close>

theorem getRepoStats_resolved:
  "repos_get h token owner repo = Inr d \<Longrightarrow>
   getRepoStats h token owner repo s =
     (Inr (Some \<lparr>name = full_name d,
                  stars = stargazers_count d,
                  forks = forks_count d,
                  issues = open_issues_count d,
                  language = data_language d,
                  size_kb = data_size d,
                  created = created_at d,
                  updated = updated_at d\<rparr>),
      s @ [ReposGet token owner repo])"
  by (simp add: getRepoStats_def try_catch_def bind_def octokit_repos_get_def ret_def)

theorem getRepoStats_resolved_witness:
  "repos_get mock_host_resolving (JStr ''token'') (JStr ''test-owner'') (JStr ''test-repo'')
     = Inr mockRepoData
   \<and> getRepoStats mock_host_resolving (JStr ''token'') (JStr ''test-owner'') (JStr ''test-repo'') []
     = (Inr (Some \<lparr>name = JStr ''test-owner/test-repo'',
                    stars = JNum 42,
                    forks = JNum 7,
                    issues = JNum 3,
                    language = JStr ''JavaScript'',
                    size_kb = JNum 1024,
                    created = JStr ''2023-01-01T00:00:00Z'',
                    updated = JStr ''2023-12-01T00:00:00Z''\<rparr>),
        [ReposGet (JStr ''token'') (JStr ''test-owner'') (JStr ''test-repo'')])"
  using getRepoStats_resolved [of mock_host_resolving "JStr ''token''" "JStr ''test-owner''"
      "JStr ''test-repo''" mockRepoData "[]"]
  by (simp add: mock_host_resolving_def mock_host_def mock_resolved_def mockRepoData_def)

section \<open>Laws of statement sequences\<close>

lemma emitsD:
  assumes "emits m Q"
  shows "\<exists>evs. snd (m s) = s @ evs \<and> list_all Q evs"
  using assms unfolding emits_def by blast

lemma emits_ret: "emits (ret x) Q"
  by (simp add: emits_def ret_def)

lemma emits_lift: "emits (lift r) Q"
  by (simp add: emits_def lift_def)

lemma emits_host_call: "Q ev \<Longrightarrow> emits (host_call ev err) Q"
  by (simp add: emits_def host_call_def)

lemma emits_bind:
  assumes m: "emits m Q" and f: "\<And>x. emits (f x) Q"
  shows "emits (bind m f) Q"
  unfolding emits_def
proof
  fix s
  obtain evs where 1: "snd (m s) = s @ evs" "list_all Q evs"
    using emitsD [OF m, of s] by blast
  show "\<exists>evs. snd (bind m f s) = s @ evs \<and> list_all Q evs"
  proof (cases "fst (m s)")
    case (Inl e)
    then have "bind m f s = (Inl e, s @ evs)"
      using 1(1) by (cases "m s") (simp add: bind_def)
    then show ?thesis using 1(2) by simp
  next
    case (Inr x)
    then have b: "bind m f s = f x (s @ evs)"
      using 1(1) by (cases "m s") (simp add: bind_def)
    obtain evs' where 2: "snd (f x (s @ evs)) = (s @ evs) @ evs'" "list_all Q evs'"
      using emitsD [OF f, of x "s @ evs"] by blast
    show ?thesis
      using b 1(2) 2 by (intro exI [of _ "evs @ evs'"]) simp
  qed
qed

lemma emits_seq: "emits m Q \<Longrightarrow> emits k Q \<Longrightarrow> emits (seq m k) Q"
  unfolding seq_def by (rule emits_bind)

lemma emits_try_catch:
  assumes m: "emits m Q" and f: "\<And>e. emits (handler e) Q"
  shows "emits (try_catch m handler) Q"
  unfolding emits_def
proof
  fix s
  obtain evs where 1: "snd (m s) = s @ evs" "list_all Q evs"
    using emitsD [OF m, of s] by blast
  show "\<exists>evs. snd (try_catch m handler s) = s @ evs \<and> list_all Q evs"
  proof (cases "fst (m s)")
    case (Inr x)
    then have "try_catch m handler s = (Inr x, s @ evs)"
      using 1(1) by (cases "m s") (simp add: try_catch_def)
    then show ?thesis using 1(2) by simp
  next
    case (Inl e)
    then have b: "try_catch m handler s = handler e (s @ evs)"
      using 1(1) by (cases "m s") (simp add: try_catch_def)
    obtain evs' where 2: "snd (handler e (s @ evs)) = (s @ evs) @ evs'" "list_all Q evs'"
      using emitsD [OF f, of e "s @ evs"] by blast
    show ?thesis
      using b 1(2) 2 by (intro exI [of _ "evs @ evs'"]) simp
  qed
qed

lemma emits_if: "(c \<Longrightarrow> emits a Q) \<Longrightarrow> (\<not> c \<Longrightarrow> emits b Q) \<Longrightarrow> emits (if c then a else b) Q"
  by simp

lemma emits_case_option:
  "emits a Q \<Longrightarrow> (\<And>x. emits (f x) Q) \<Longrightarrow> emits (case opt of None \<Rightarrow> a | Some x \<Rightarrow> f x) Q"
  by (cases opt) simp_all

lemma emits_case_prod:
  "(\<And>a b. emits (f a b) Q) \<Longrightarrow> emits (case p of (a, b) \<Rightarrow> f a b) Q"
  by (cases p) simp

lemma emits_info: "Q (Info l) \<Longrightarrow> emits (core_info l) Q"
  unfolding core_info_def by (rule emits_host_call)

lemmas emits_intros =
  emits_seq emits_bind emits_try_catch emits_if emits_case_option emits_info emits_host_call
  emits_ret emits_lift

lemma emits_all:
  assumes "emits m Q"
  shows "\<forall>e \<in> set (snd (m [])). Q e"
  using emitsD [OF assms, of "[]"] by (auto simp add: list_all_iff)

lemma emits_prefix: "emits m Q \<Longrightarrow> prefix s (snd (m s))"
  using emitsD [of m Q s] by auto

lemma bind_prefix:
  assumes "\<And>x. emits (f x) Q"
  shows "prefix (snd (m s)) (snd (bind m f s))"
proof (cases "m s")
  case (Pair r s')
  show ?thesis
  proof (cases r)
    case (Inl e)
    with Pair show ?thesis by (simp add: bind_def)
  next
    case (Inr x)
    with Pair have "bind m f s = f x s'" by (simp add: bind_def)
    with Pair emits_prefix [of "f x" Q s', OF assms] show ?thesis by simp
  qed
qed

lemma try_catch_prefix:
  assumes "\<And>e. emits (handler e) Q"
  shows "prefix (snd (m s)) (snd (try_catch m handler s))"
proof (cases "m s")
  case (Pair r s')
  show ?thesis
  proof (cases r)
    case (Inr x)
    with Pair show ?thesis by (simp add: try_catch_def)
  next
    case (Inl e)
    with Pair have "try_catch m handler s = handler e s'" by (simp add: try_catch_def)
    with Pair emits_prefix [of "handler e" Q s', OF assms] show ?thesis by simp
  qed
qed

lemma bind_assoc: "bind (bind m f) k = bind m (\<lambda>x. bind (f x) k)"
  by (rule ext) (simp add: bind_def split: prod.splits sum.splits)

lemma bind_ret: "bind (ret x) f = f x"
  by (rule ext) (simp add: bind_def ret_def)

lemma seq_info_apply: "seq (core_info l) k s = k (s @ [Info l])"
  by (simp add: seq_def bind_def core_info_def host_call_def)

lemma seq_then_info:
  "m s = (Inr (), s') \<Longrightarrow> seq m (core_info l) s = (Inr (), s' @ [Info l])"
  by (simp add: seq_def bind_def core_info_def host_call_def)

lemma returnsD: "returns m R \<Longrightarrow> m s = (Inr x, s') \<Longrightarrow> R x"
  unfolding returns_def by blast

lemma returns_ret: "R x \<Longrightarrow> returns (ret x) R"
  by (simp add: returns_def ret_def)

lemma returns_bind:
  assumes "returns m R1" and "\<And>x. R1 x \<Longrightarrow> returns (f x) R"
  shows "returns (bind m f) R"
  unfolding returns_def
proof (intro allI impI)
  fix s y s'
  assume b: "bind m f s = (Inr y, s')"
  obtain r s1 where m: "m s = (r, s1)" by (cases "m s")
  show "R y"
  proof (cases r)
    case (Inl e)
    with b m show ?thesis by (simp add: bind_def)
  next
    case (Inr x)
    with b m have "f x s1 = (Inr y, s')" by (simp add: bind_def)
    moreover have "R1 x" using assms(1) m Inr by (auto dest: returnsD)
    ultimately show ?thesis using assms(2) by (auto dest: returnsD)
  qed
qed

lemma returns_any: "returns m (\<lambda>_. True)"
  by (simp add: returns_def)

lemma returns_lift: "returns (lift r) (\<lambda>x. r = Inr x)"
  by (simp add: returns_def lift_def)

lemma returns_lift_bind:
  "(\<And>x. r = Inr x \<Longrightarrow> returns (f x) R) \<Longrightarrow> returns (bind (lift r) f) R"
  by (rule returns_bind [OF returns_lift])

lemma returns_then: "(\<And>x. returns (f x) R) \<Longrightarrow> returns (bind m f) R"
  by (rule returns_bind [OF returns_any])

lemma returns_seq: "returns k R \<Longrightarrow> returns (seq m k) R"
  unfolding seq_def by (rule returns_then)

lemma returns_if:
  "(c \<Longrightarrow> returns a R) \<Longrightarrow> (\<not> c \<Longrightarrow> returns b R) \<Longrightarrow> returns (if c then a else b) R"
  by simp

lemma returns_case_option:
  "(opt = None \<Longrightarrow> returns a R) \<Longrightarrow> (\<And>x. opt = Some x \<Longrightarrow> returns (f x) R) \<Longrightarrow>
   returns (case opt of None \<Rightarrow> a | Some x \<Rightarrow> f x) R"
  by (cases opt) simp_all

section \<open>The events and the results of each step\<close>

lemma emits_log_inputs: "(\<And>l. Q (Info l)) \<Longrightarrow> emits (log_inputs i) Q"
  unfolding log_inputs_def by (intro emits_intros)

lemma emits_greeting_step:
  assumes "\<And>l. Q (Info l)"
    and "Q (SetOutput ''message'' (messagePrefix i @ '', '' @ whoToGreet i @ ''!''))"
  shows "emits (greeting_step h i) Q"
  unfolding greeting_step_def core_setOutput_def createGreeting_def
  using assms by (simp add: lift_def bind_def seq_def emits_def host_call_def core_info_def ret_def
      split: option.splits)

lemma emits_time_step:
  "(\<And>l. Q (Info l)) \<Longrightarrow> Q (SetOutput ''time'' (Date_toISOString h)) \<Longrightarrow> emits (time_step h i) Q"
  unfolding time_step_def core_setOutput_def Let_def getCurrentTime_def
  by (intro emits_intros)

lemma emits_getRepoStats:
  "Q (ReposGet token owner repo) \<Longrightarrow> (\<And>l. Q (Warning l)) \<Longrightarrow>
   emits (getRepoStats h token owner repo) Q"
  unfolding getRepoStats_def core_warning_def
  by (intro emits_intros) (simp_all add: emits_def octokit_repos_get_def)

lemma emits_stats_step:
  assumes "\<And>l. Q (Info l)" and "\<And>l. Q (Warning l)"
    and "githubToken i \<noteq> [] \<and> truthy (context_repo_owner h) \<and> truthy (context_repo_repo h) \<Longrightarrow>
         Q (ReposGet (JStr (githubToken i)) (context_repo_owner h) (context_repo_repo h))"
    and "\<And>rs. githubToken i \<noteq> [] \<and> truthy (context_repo_owner h) \<and> truthy (context_repo_repo h) \<Longrightarrow>
         Q (SetOutput ''repo-stats'' (JSON_stringify h rs))"
  shows "emits (stats_step h i) Q"
  unfolding stats_step_def core_setOutput_def
  using assms by (intro emits_intros emits_getRepoStats) simp_all

lemma emits_log_rows: "(\<And>l. Q (Info l)) \<Longrightarrow> emits (log_rows rows) Q"
  by (induction rows) (auto intro!: emits_intros)

lemma emits_write_summary:
  "(\<And>l. Q (Info l)) \<Longrightarrow> Q (SummaryWrite summary_heading table) \<Longrightarrow> emits (write_summary h table) Q"
  unfolding write_summary_def core_summary_write_def
  by (intro emits_intros emits_log_rows)

lemma emits_run_back:
  "(\<And>l. Q (Info l)) \<Longrightarrow> Q (SetSecret ''my-secret-value'') \<Longrightarrow> (\<And>t. Q (SummaryWrite summary_heading t)) \<Longrightarrow>
   emits (run_back h g ct rs) Q"
  unfolding run_back_def core_setSecret_def
  by (intro emits_intros emits_write_summary)

lemma emits_run_front:
  assumes "\<And>l. Q (Info l)"
    and "Q (SetOutput ''message'' (messagePrefix (get_inputs h) @ '', '' @ whoToGreet (get_inputs h) @ ''!''))"
    and "Q (SetOutput ''time'' (Date_toISOString h))"
  shows "emits (run_front h) Q"
  unfolding run_front_def Let_def
  using assms by (intro emits_intros emits_log_inputs emits_greeting_step emits_time_step)

lemma returns_stats_step: "returns (stats_step h i) printable"
  unfolding stats_step_def
  by (intro returns_if returns_seq returns_lift_bind returns_then returns_case_option returns_ret)
     (simp_all add: printable_def)

lemma returns_time_step: "returns (time_step h i) (\<lambda>ct. \<exists>l. ToString ct = Inr l)"
  unfolding time_step_def Let_def
  by (intro returns_if returns_seq returns_ret) simp_all

lemma returns_greeting_step:
  "returns (greeting_step h i) (\<lambda>g. g = messagePrefix i @ '', '' @ whoToGreet i @ ''!'')"
  unfolding greeting_step_def
  by (intro returns_lift_bind returns_seq returns_ret) (simp add: createGreeting_def)

lemma returns_run_front:
  "returns (run_front h)
     (\<lambda>(g, ct). g = messagePrefix (get_inputs h) @ '', '' @ whoToGreet (get_inputs h) @ ''!''
                \<and> (\<exists>l. ToString ct = Inr l))"
  unfolding run_front_def Let_def
  by (intro returns_seq returns_bind [OF returns_greeting_step] returns_bind [OF returns_time_step]
        returns_ret) simp

lemma getRepoStats_trace:
  "prefix (s @ [ReposGet token owner repo]) (snd (getRepoStats h token owner repo s))"
  by (cases "repos_get h token owner repo")
     (simp_all add: getRepoStats_def try_catch_def bind_def seq_def octokit_repos_get_def
        core_warning_def host_call_def ret_def)

lemma stats_step_skipped:
  "\<not> (githubToken i \<noteq> [] \<and> truthy (context_repo_owner h) \<and> truthy (context_repo_repo h)) \<Longrightarrow>
   stats_step h i = ret None"
  unfolding stats_step_def by (rule if_not_P)

lemma prefix_bind:
  assumes "prefix p (snd (m s))" and "\<And>x. emits (f x) Q"
  shows "prefix p (snd (bind m f s))"
  using assms(1) bind_prefix [of f Q m s, OF assms(2)] by (rule prefix_order.trans)

lemma prefix_seq_info:
  "prefix p (snd (k (s @ [Info l]))) \<Longrightarrow> prefix p (snd (seq (core_info l) k s))"
  by (simp add: seq_info_apply)

lemma stats_step_prefix:
  assumes "githubToken i \<noteq> [] \<and> truthy (context_repo_owner h) \<and> truthy (context_repo_repo h)"
  shows "prefix (s @ [Info ''Fetching repository statistics...'',
                      ReposGet (JStr (githubToken i)) (context_repo_owner h) (context_repo_repo h)])
           (snd (stats_step h i s))"
proof -
  have "prefix ((s @ [Info ''Fetching repository statistics...''])
                  @ [ReposGet (JStr (githubToken i)) (context_repo_owner h) (context_repo_repo h)])
          (snd (stats_step h i s))"
    unfolding stats_step_def if_P [OF assms] core_setOutput_def
    by (rule prefix_seq_info, rule prefix_bind [where Q = "\<lambda>_. True"],
        rule getRepoStats_trace)
       (intro emits_intros, simp_all)
  then show ?thesis by simp
qed

lemma summaryTable_rows:
  assumes "summaryTable g incl ct rs = Inr T" and "\<exists>l. ToString ct = Inr l" and "printable rs"
  shows "take 2 T = [(CellObj ''Field'' True, CellObj ''Value'' True),
                     (CellVal (JStr ''Greeting''), CellVal (JStr g))]
         \<and> (\<forall>r \<in> set (drop 1 T). \<exists>l. row_line r = Inr l)"
  using assms
  by (cases rs)
     (auto simp add: summaryTable_def and_then_def row_line_def printable_def
        split: sum.splits if_splits)

lemma log_rows_printable:
  assumes "\<forall>r \<in> set rows. \<exists>l. row_line r = Inr l"
  shows "\<exists>lines. map row_line rows = map Inr lines
           \<and> log_rows rows s = (Inr (), s @ map Info lines)"
  using assms
proof (induction rows arbitrary: s)
  case Nil
  show ?case by (simp add: ret_def)
next
  case (Cons r rows)
  from Cons.prems obtain l where l: "row_line r = Inr l" by auto
  from Cons.prems have "\<forall>r \<in> set rows. \<exists>l. row_line r = Inr l" by simp
  from Cons.IH [OF this, of "s @ [Info l]"]
  obtain lines where lines: "map row_line rows = map Inr lines"
    "log_rows rows (s @ [Info l]) = (Inr (), (s @ [Info l]) @ map Info lines)"
    by blast
  have "log_rows (r # rows) s = log_rows rows (s @ [Info l])"
    by (simp add: l bind_def lift_def seq_info_apply)
  with lines show ?case
    by (intro exI [of _ "l # lines"]) (simp add: l)
qed

lemma write_summary_written:
  "summary_write_throws h summary_heading table = None \<Longrightarrow>
   write_summary h table s = (Inr (), s @ [SummaryWrite summary_heading table])"
  by (simp add: write_summary_def try_catch_def core_summary_write_def host_call_def)

lemma write_summary_fallback:
  "summary_write_throws h summary_heading table = Some e \<Longrightarrow>
   write_summary h table s =
     log_rows (drop 1 table) (s @ [SummaryWrite summary_heading table, Info fallback_heading])"
  by (simp add: write_summary_def try_catch_def core_summary_write_def host_call_def
      seq_info_apply)

lemma run_back_apply:
  "run_back h g ct rs s =
     (case summaryTable g (includeTime (get_inputs h)) ct rs of
        Inl e \<Rightarrow> (Inl e, s @ [SetSecret ''my-secret-value''])
      | Inr table \<Rightarrow>
          seq (write_summary h table) (core_info completed_line)
            (s @ [SetSecret ''my-secret-value'']))"
  by (simp add: run_back_def seq_def bind_def core_setSecret_def host_call_def lift_def
      split: sum.splits)

section \<open>The run as a whole\<close>

lemma run_try_split:
  "run_try h =
     bind (run_front h) (\<lambda>(greeting, currentTime).
       bind (stats_step h (get_inputs h)) (\<lambda>repoStats. run_back h greeting currentTime repoStats))"
  by (simp add: run_try_def run_front_def run_back_def Let_def seq_def bind_assoc bind_ret)

lemma emits_run_try:
  assumes "\<And>l. Q (Info l)" and "\<And>l. Q (Warning l)"
    and "Q (SetSecret ''my-secret-value'')"
    and "\<And>t. Q (SummaryWrite summary_heading t)"
    and "Q (SetOutput ''message''
            (messagePrefix (get_inputs h) @ '', '' @ whoToGreet (get_inputs h) @ ''!''))"
    and "Q (SetOutput ''time'' (Date_toISOString h))"
    and "getInput h ''github-token'' \<noteq> [] \<and> truthy (context_repo_owner h)
           \<and> truthy (context_repo_repo h) \<Longrightarrow>
         Q (ReposGet (JStr (getInput h ''github-token'')) (context_repo_owner h)
              (context_repo_repo h))"
    and "\<And>rs. getInput h ''github-token'' \<noteq> [] \<and> truthy (context_repo_owner h)
           \<and> truthy (context_repo_repo h) \<Longrightarrow>
         Q (SetOutput ''repo-stats'' (JSON_stringify h rs))"
  shows "emits (run_try h) Q"
  unfolding run_try_split
  using assms
  by (intro emits_bind emits_case_prod emits_run_front emits_stats_step emits_run_back)
     (simp_all add: get_inputs_def)

lemma emits_run:
  assumes "emits (run_try h) Q" and "\<And>l. Q (SetFailed l)"
  shows "emits (run h) Q"
  unfolding run_def core_setFailed_def
  using assms by (intro emits_try_catch emits_host_call)

lemma emits_True_run_back: "emits (run_back h g ct rs) (\<lambda>_. True)"
  by (rule emits_run_back) simp_all

lemma emits_True_stats_step: "emits (stats_step h i) (\<lambda>_. True)"
  by (rule emits_stats_step) simp_all

lemma run_prefix_try: "prefix (snd (run_try h s)) (snd (run h s))"
  unfolding run_def core_setFailed_def
  by (rule try_catch_prefix [where Q = "\<lambda>_. True"]) (simp add: emits_host_call)

lemma run_prefix_front: "prefix (snd (run_front h s)) (snd (run h s))"
proof -
  have "prefix (snd (run_front h s)) (snd (run_try h s))"
    unfolding run_try_split
    by (rule bind_prefix [where Q = "\<lambda>_. True"])
       (intro emits_case_prod emits_bind emits_True_stats_step emits_True_run_back)
  moreover have "prefix (snd (run_try h s)) (snd (run h s))"
    unfolding run_def core_setFailed_def
    by (rule try_catch_prefix [where Q = "\<lambda>_. True"]) (simp add: emits_host_call)
  ultimately show ?thesis by (rule prefix_order.trans)
qed

lemma run_front_message:
  "SetOutput ''message'' (messagePrefix (get_inputs h) @ '', '' @ whoToGreet (get_inputs h) @ ''!'')
     \<in> set (snd (run_front h s))"
  by (simp add: run_front_def Let_def log_inputs_def greeting_step_def time_step_def
      createGreeting_def core_setOutput_def core_info_def host_call_def seq_def bind_def
      lift_def ret_def split: option.splits)

lemma run_front_token_line:
  "Info (''GitHub token provided: '' @ (if getInput h ''github-token'' \<noteq> [] then ''Yes'' else ''No''))
     \<in> set (snd (run_front h s))"
  by (simp add: run_front_def Let_def log_inputs_def greeting_step_def time_step_def
      createGreeting_def core_setOutput_def core_info_def host_call_def seq_def bind_def
      lift_def ret_def get_inputs_def split: option.splits)

lemma run_of_raise:
  "run_try h s = (Inl e, s') \<Longrightarrow>
   run h s = (Inr (), s' @ [SetFailed (''Action failed with error: '' @ message e)])"
  by (simp add: run_def try_catch_def core_setFailed_def host_call_def)

lemma run_of_return:
  "run_try h s = (Inr x, s') \<Longrightarrow> run h s = (Inr x, s')"
  by (simp add: run_def try_catch_def)

lemma run_try_of_front_raise:
  "run_front h s = (Inl e, s') \<Longrightarrow> run_try h s = (Inl e, s')"
  by (simp add: run_try_split bind_def)

lemma run_try_of_front_return:
  "run_front h s = (Inr (g, ct), s') \<Longrightarrow>
   run_try h s = bind (stats_step h (get_inputs h)) (\<lambda>repoStats. run_back h g ct repoStats) s'"
  by (simp add: run_try_split bind_def)

lemma before_fetch_prefix:
  assumes "prefix (P @ [a, ReposGet t ow rp]) tr" and "\<forall>e \<in> set P. \<not> is_ReposGet e"
    and "\<not> is_ReposGet a"
  shows "before_fetch tr = P @ [a]"
proof -
  obtain rest where "tr = (P @ [a, ReposGet t ow rp]) @ rest"
    using assms(1) by (auto simp add: prefix_def)
  then have "tr = P @ (a # ReposGet t ow rp # rest)" by simp
  then show ?thesis
    using assms(2,3) by (simp add: before_fetch_def takeWhile_append2)
qed

lemma before_fetch_keeps:
  assumes "prefix P tr" and "\<forall>e \<in> set P. \<not> is_ReposGet e"
  shows "prefix P (before_fetch tr)"
proof -
  obtain rest where "tr = P @ rest"
    using assms(1) by (auto simp add: prefix_def)
  then show ?thesis
    using assms(2) by (simp add: before_fetch_def takeWhile_append2)
qed

lemma run_front_cong:
  assumes "getInput h1 ''who-to-greet'' = getInput h2 ''who-to-greet''"
    and "getInput h1 ''include-time'' = getInput h2 ''include-time''"
    and "getInput h1 ''message-prefix'' = getInput h2 ''message-prefix''"
    and "(getInput h1 ''github-token'' = []) = (getInput h2 ''github-token'' = [])"
    and "setOutput_throws h1 = setOutput_throws h2"
    and "Date_toISOString h1 = Date_toISOString h2"
  shows "run_front h1 = run_front h2"
proof -
  let ?i1 = "get_inputs h1" and ?i2 = "get_inputs h2"
  have w: "whoToGreet ?i1 = whoToGreet ?i2" and p: "messagePrefix ?i1 = messagePrefix ?i2"
    and t: "includeTime ?i1 = includeTime ?i2"
    and k: "(githubToken ?i1 \<noteq> []) = (githubToken ?i2 \<noteq> [])"
    using assms(1-4) by (simp_all add: get_inputs_def getBooleanInput_def)
  have 1: "log_inputs ?i1 = log_inputs ?i2"
    unfolding log_inputs_def w p t k by (rule refl)
  have 2: "greeting_step h1 ?i1 = greeting_step h2 ?i2"
    unfolding greeting_step_def core_setOutput_def w p assms(5) by (rule refl)
  have 3: "time_step h1 ?i1 = time_step h2 ?i2"
    unfolding time_step_def core_setOutput_def getCurrentTime_def t assms(5,6) by (rule refl)
  show ?thesis
    unfolding run_front_def Let_def 1 2 3 by (rule refl)
qed

lemma run_back_cong:
  assumes "getInput h1 ''include-time'' = getInput h2 ''include-time''"
    and "summary_write_throws h1 = summary_write_throws h2"
  shows "run_back h1 = run_back h2"
proof -
  have t: "includeTime (get_inputs h1) = includeTime (get_inputs h2)"
    using assms(1) by (simp add: get_inputs_def getBooleanInput_def)
  have "write_summary h1 = write_summary h2"
    unfolding write_summary_def core_summary_write_def assms(2) by (rule refl)
  then show ?thesis
    unfolding run_back_def t by simp
qed

lemma front_no_fetch: "\<forall>e \<in> set (snd (run_front h [])). \<not> is_ReposGet e"
  by (rule emits_all, rule emits_run_front) simp_all

lemma before_fetch_gated:
  assumes gate: "getInput h ''github-token'' \<noteq> [] \<and> truthy (context_repo_owner h)
                   \<and> truthy (context_repo_repo h)"
    and front: "run_front h [] = (Inr (g, ct), P)"
  shows "before_fetch (snd (run h [])) = P @ [Info ''Fetching repository statistics...'']"
proof -
  let ?i = "get_inputs h"
  let ?p = "P @ [Info ''Fetching repository statistics...'',
                 ReposGet (JStr (githubToken ?i)) (context_repo_owner h) (context_repo_repo h)]"
  have tok: "githubToken ?i = getInput h ''github-token''"
    by (simp add: get_inputs_def)
  have "githubToken ?i \<noteq> [] \<and> truthy (context_repo_owner h) \<and> truthy (context_repo_repo h)"
    using gate unfolding tok .
  then have "prefix ?p (snd (stats_step h ?i P))"
    by (rule stats_step_prefix)
  then have "prefix ?p (snd (bind (stats_step h ?i) (\<lambda>repoStats. run_back h g ct repoStats) P))"
    by (rule prefix_bind [where Q = "\<lambda>_. True"]) (rule emits_True_run_back)
  then have "prefix ?p (snd (run_try h []))"
    unfolding run_try_of_front_return [OF front] .
  then have "prefix ?p (snd (run h []))"
    using run_prefix_try by (rule prefix_order.trans)
  moreover have "\<forall>e \<in> set P. \<not> is_ReposGet e"
    using front_no_fetch [of h] front by simp
  ultimately show ?thesis
    by (intro before_fetch_prefix) simp_all
qed

lemma before_fetch_cong:
  assumes a1: "getInput h1 ''who-to-greet'' = getInput h2 ''who-to-greet''"
    and a2: "getInput h1 ''include-time'' = getInput h2 ''include-time''"
    and a3: "getInput h1 ''message-prefix'' = getInput h2 ''message-prefix''"
    and a4: "(getInput h1 ''github-token'' = []) = (getInput h2 ''github-token'' = [])"
    and a5: "setOutput_throws h1 = setOutput_throws h2"
    and a6: "Date_toISOString h1 = Date_toISOString h2"
    and a7: "context_repo_owner h1 = context_repo_owner h2"
    and a8: "context_repo_repo h1 = context_repo_repo h2"
    and a9: "summary_write_throws h1 = summary_write_throws h2"
  shows "before_fetch (snd (run h1 [])) = before_fetch (snd (run h2 []))"
proof -
  have fr: "run_front h1 = run_front h2"
    using a1 a2 a3 a4 a5 a6 by (rule run_front_cong)
  have bk: "run_back h1 = run_back h2"
    using a2 a9 by (rule run_back_cong)
  obtain r P where P: "run_front h1 [] = (r, P)"
    by (cases "run_front h1 []")
  then have P2: "run_front h2 [] = (r, P)" by (simp add: fr)
  show ?thesis
  proof (cases r)
    case (Inl e)
    then have "run h1 [] = run h2 []"
      using P P2 by (simp add: run_of_raise run_try_of_front_raise)
    then show ?thesis by simp
  next
    case (Inr gc)
    obtain g ct where gc: "gc = (g, ct)" by (cases gc)
    show ?thesis
    proof (cases "getInput h1 ''github-token'' \<noteq> [] \<and> truthy (context_repo_owner h1)
                    \<and> truthy (context_repo_repo h1)")
      case True
      then have "getInput h2 ''github-token'' \<noteq> [] \<and> truthy (context_repo_owner h2)
                    \<and> truthy (context_repo_repo h2)"
        using a4 a7 a8 by simp
      then have "before_fetch (snd (run h2 [])) = P @ [Info ''Fetching repository statistics...'']"
        using P2 Inr gc by (intro before_fetch_gated) simp_all
      moreover have "before_fetch (snd (run h1 [])) = P @ [Info ''Fetching repository statistics...'']"
        using True P Inr gc by (intro before_fetch_gated) simp_all
      ultimately show ?thesis by simp
    next
      case False
      then have 1: "stats_step h1 (get_inputs h1) = ret None"
        by (intro stats_step_skipped) (simp add: get_inputs_def)
      from False have "\<not> (getInput h2 ''github-token'' \<noteq> [] \<and> truthy (context_repo_owner h2)
                    \<and> truthy (context_repo_repo h2))"
        using a4 a7 a8 by simp
      then have 2: "stats_step h2 (get_inputs h2) = ret None"
        by (intro stats_step_skipped) (simp add: get_inputs_def)
      have "run_try h1 = run_try h2"
        by (simp add: run_try_split fr bk 1 2)
      then have "run h1 = run h2" by (simp add: run_def)
      then show ?thesis by simp
    qed
  qed
qed

section \<open>Exceptions of the steps\<close>

lemma outputs_strictD:
  assumes "outputs_strict h m"
  shows "\<exists>evs. snd (m s) = s @ evs
        \<and> (\<forall>n v e. SetOutput n v \<in> set evs \<longrightarrow> setOutput_throws h n v = Some e \<longrightarrow>
              fst (m s) = Inl e \<and> evs \<noteq> [] \<and> last evs = SetOutput n v)"
  using assms unfolding outputs_strict_def by blast

lemma strict_of_emits:
  assumes "emits m (\<lambda>e. \<not> is_SetOutput e)"
  shows "outputs_strict h m"
  unfolding outputs_strict_def
proof
  fix s
  obtain evs where 1: "snd (m s) = s @ evs" "list_all (\<lambda>e. \<not> is_SetOutput e) evs"
    using emitsD [OF assms, of s] by blast
  then have "\<forall>n v. SetOutput n v \<notin> set evs"
    by (auto simp add: list_all_iff)
  with 1(1) show "\<exists>evs. snd (m s) = s @ evs
        \<and> (\<forall>n v e. SetOutput n v \<in> set evs \<longrightarrow> setOutput_throws h n v = Some e \<longrightarrow>
              fst (m s) = Inl e \<and> evs \<noteq> [] \<and> last evs = SetOutput n v)"
    by blast
qed

lemma strict_ret: "outputs_strict h (ret x)"
  by (rule strict_of_emits) (rule emits_ret)

lemma strict_lift: "outputs_strict h (lift r)"
  by (rule strict_of_emits) (rule emits_lift)

lemma strict_info: "outputs_strict h (core_info l)"
  by (rule strict_of_emits, rule emits_info) simp

lemma strict_setOutput: "outputs_strict h (core_setOutput h n v)"
  by (auto simp add: outputs_strict_def core_setOutput_def host_call_def)

lemma strict_bind:
  assumes m: "outputs_strict h m" and f: "\<And>x. outputs_strict h (f x)"
  shows "outputs_strict h (bind m f)"
  unfolding outputs_strict_def
proof
  fix s
  obtain evs where 1: "snd (m s) = s @ evs"
    "\<And>n v e. SetOutput n v \<in> set evs \<Longrightarrow> setOutput_throws h n v = Some e \<Longrightarrow>
              fst (m s) = Inl e \<and> evs \<noteq> [] \<and> last evs = SetOutput n v"
    using outputs_strictD [OF m, of s] by blast
  show "\<exists>evs. snd (bind m f s) = s @ evs
        \<and> (\<forall>n v e. SetOutput n v \<in> set evs \<longrightarrow> setOutput_throws h n v = Some e \<longrightarrow>
              fst (bind m f s) = Inl e \<and> evs \<noteq> [] \<and> last evs = SetOutput n v)"
  proof (cases "fst (m s)")
    case (Inl e0)
    then have "bind m f s = (Inl e0, s @ evs)"
      using 1(1) by (cases "m s") (simp add: bind_def)
    with 1(2) Inl show ?thesis by (intro exI [of _ evs]) auto
  next
    case (Inr x)
    then have b: "bind m f s = f x (s @ evs)"
      using 1(1) by (cases "m s") (simp add: bind_def)
    have none: "setOutput_throws h n v = None" if "SetOutput n v \<in> set evs" for n v
    proof (cases "setOutput_throws h n v")
      case None
      then show ?thesis .
    next
      case (Some e)
      with 1(2) [OF that] Inr show ?thesis by simp
    qed
    obtain evs' where 2: "snd (f x (s @ evs)) = (s @ evs) @ evs'"
      "\<And>n v e. SetOutput n v \<in> set evs' \<Longrightarrow> setOutput_throws h n v = Some e \<Longrightarrow>
              fst (f x (s @ evs)) = Inl e \<and> evs' \<noteq> [] \<and> last evs' = SetOutput n v"
      using outputs_strictD [OF f, of x "s @ evs"] by blast
    have "fst (bind m f s) = Inl e \<and> evs @ evs' \<noteq> [] \<and> last (evs @ evs') = SetOutput n v"
      if "SetOutput n v \<in> set (evs @ evs')" and t: "setOutput_throws h n v = Some e" for n v e
    proof -
      from that none have "SetOutput n v \<in> set evs'" by auto
      from 2(2) [OF this t] show ?thesis by (simp add: b)
    qed
    then have 3: "\<forall>n v e. SetOutput n v \<in> set (evs @ evs') \<longrightarrow> setOutput_throws h n v = Some e \<longrightarrow>
              fst (bind m f s) = Inl e \<and> evs @ evs' \<noteq> [] \<and> last (evs @ evs') = SetOutput n v"
      by blast
    have 4: "snd (bind m f s) = s @ (evs @ evs')"
      using b 2(1) by simp
    show ?thesis
      by (rule exI [of _ "evs @ evs'"], rule conjI, rule 4, rule 3)
  qed
qed

lemma strict_seq: "outputs_strict h m \<Longrightarrow> outputs_strict h k \<Longrightarrow> outputs_strict h (seq m k)"
  unfolding seq_def by (rule strict_bind)

lemma strict_if:
  "(c \<Longrightarrow> outputs_strict h a) \<Longrightarrow> (\<not> c \<Longrightarrow> outputs_strict h b) \<Longrightarrow>
   outputs_strict h (if c then a else b)"
  by simp

lemma strict_case_option:
  "outputs_strict h a \<Longrightarrow> (\<And>x. outputs_strict h (f x)) \<Longrightarrow>
   outputs_strict h (case opt of None \<Rightarrow> a | Some x \<Rightarrow> f x)"
  by (cases opt) simp_all

lemma strict_getRepoStats: "outputs_strict h (getRepoStats h token owner repo)"
  by (rule strict_of_emits, rule emits_getRepoStats) simp_all

lemma strict_write_summary: "outputs_strict h (write_summary h table)"
  by (rule strict_of_emits, rule emits_write_summary) simp_all

lemma strict_setSecret: "outputs_strict h (core_setSecret l)"
  unfolding core_setSecret_def by (rule strict_of_emits, rule emits_host_call) simp

lemmas strict_intros =
  strict_seq strict_bind strict_if strict_case_option strict_info strict_setOutput strict_ret
  strict_lift strict_getRepoStats strict_write_summary strict_setSecret

lemma strict_run_try: "outputs_strict h (run_try h)"
  unfolding run_try_def Let_def log_inputs_def greeting_step_def time_step_def stats_step_def
  by (intro strict_intros)

lemma throwing_output_ends_run:
  assumes mem: "SetOutput n v \<in> set (snd (run h []))"
    and t: "setOutput_throws h n v = Some e"
  shows "\<exists>before. snd (run h []) =
           before @ [SetOutput n v, SetFailed (''Action failed with error: '' @ message e)]"
proof -
  obtain evs where 1: "snd (run_try h []) = evs"
    "\<And>n v e. SetOutput n v \<in> set evs \<Longrightarrow> setOutput_throws h n v = Some e \<Longrightarrow>
              fst (run_try h []) = Inl e \<and> evs \<noteq> [] \<and> last evs = SetOutput n v"
    using outputs_strictD [OF strict_run_try, of h "[]"] by auto
  have in_try: "SetOutput n v \<in> set evs"
  proof (cases "fst (run_try h [])")
    case (Inl e0)
    then have "run_try h [] = (Inl e0, evs)" using 1(1) by (cases "run_try h []") simp
    from run_of_raise [OF this] mem show ?thesis by simp
  next
    case (Inr x)
    then have "run_try h [] = (Inr x, evs)" using 1(1) by (cases "run_try h []") simp
    from run_of_return [OF this] mem show ?thesis by simp
  qed
  from 1(2) [OF in_try t]
  have r: "fst (run_try h []) = Inl e" and ne: "evs \<noteq> []" and l: "last evs = SetOutput n v"
    by simp_all
  from r 1(1) have "run_try h [] = (Inl e, evs)" by (cases "run_try h []") simp
  from run_of_raise [OF this]
  have "snd (run h []) = evs @ [SetFailed (''Action failed with error: '' @ message e)]"
    by simp
  moreover have "evs = butlast evs @ [SetOutput n v]"
    using ne l by (metis append_butlast_last_id)
  ultimately have "snd (run h []) =
      butlast evs @ [SetOutput n v, SetFailed (''Action failed with error: '' @ message e)]"
    by (metis append.assoc append_Cons append_Nil)
  then show ?thesis by blast
qed

lemma ToString_Inl:
  "ToString v = Inl e \<Longrightarrow> e = TypeError ''Cannot convert a Symbol value to a string'' \<and> is_symbol v"
  by (cases v) (auto split: if_splits)

lemma ToString_Inr: "ToString v = Inr l \<Longrightarrow> \<not> is_symbol v"
  by (cases v) auto

lemma is_symbol_or_value: "is_symbol (or_value v (JStr u)) = is_symbol v"
  by (cases v) (auto simp add: or_value_def)

lemma getRepoStats_apply:
  "repos_get h token owner repo = Inr d \<Longrightarrow>
   getRepoStats h token owner repo s = (Inr (Some (stats_of d)), s @ [ReposGet token owner repo])"
  by (simp add: getRepoStats_def try_catch_def bind_def octokit_repos_get_def ret_def stats_of_def)

lemma stats_step_symbol:
  assumes "githubToken i \<noteq> [] \<and> truthy (context_repo_owner h) \<and> truthy (context_repo_repo h)"
    and "repos_get h (JStr (githubToken i)) (context_repo_owner h) (context_repo_repo h) = Inr d"
    and "is_symbol (full_name d) \<or> is_symbol (stargazers_count d) \<or> is_symbol (forks_count d)
         \<or> is_symbol (open_issues_count d) \<or> is_symbol (data_language d)"
  shows "fst (stats_step h i s) = Inl (TypeError ''Cannot convert a Symbol value to a string'')"
  using assms(3)
  unfolding stats_step_def if_P [OF assms(1)]
  by (auto simp add: seq_def bind_def lift_def core_info_def host_call_def
      getRepoStats_apply [OF assms(2)] stats_of_def is_symbol_or_value
      split: sum.splits dest!: ToString_Inl ToString_Inr)

lemma stats_step_plain:
  assumes "githubToken i \<noteq> [] \<and> truthy (context_repo_owner h) \<and> truthy (context_repo_repo h)"
    and "repos_get h (JStr (githubToken i)) (context_repo_owner h) (context_repo_repo h) = Inr d"
    and "\<not> (is_symbol (full_name d) \<or> is_symbol (stargazers_count d) \<or> is_symbol (forks_count d)
         \<or> is_symbol (open_issues_count d) \<or> is_symbol (data_language d))"
    and "setOutput_throws h ''repo-stats'' (JSON_stringify h (stats_of d)) = None"
  shows "fst (stats_step h i s) = Inr (Some (stats_of d))"
  using assms(3,4)
  unfolding stats_step_def if_P [OF assms(1)]
  by (auto simp add: seq_def bind_def lift_def core_info_def host_call_def core_setOutput_def ret_def
      getRepoStats_apply [OF assms(2)] stats_of_def is_symbol_or_value
      split: sum.splits dest!: ToString_Inl ToString_Inr)

lemma summaryTable_error_indep:
  "summaryTable g b ct (Some rs) = Inl e \<Longrightarrow> summaryTable g' b' ct' (Some rs) = Inl e"
  by (auto simp add: summaryTable_def and_then_def split: sum.splits)

lemma fetch_reached:
  assumes mem: "ReposGet t ow rp \<in> set (snd (run h []))"
  shows "(getInput h ''github-token'' \<noteq> [] \<and> truthy (context_repo_owner h)
            \<and> truthy (context_repo_repo h))
         \<and> t = JStr (getInput h ''github-token'') \<and> ow = context_repo_owner h
         \<and> rp = context_repo_repo h
         \<and> (\<exists>g ct P. run_front h [] = (Inr (g, ct), P))"
proof -
  let ?gate = "getInput h ''github-token'' \<noteq> [] \<and> truthy (context_repo_owner h)
                 \<and> truthy (context_repo_repo h)"
  let ?Q = "\<lambda>e. \<forall>t ow rp. e = ReposGet t ow rp \<longrightarrow>
                 ?gate \<and> t = JStr (getInput h ''github-token'') \<and> ow = context_repo_owner h
                 \<and> rp = context_repo_repo h"
  have "emits (run_try h) ?Q"
    by (rule emits_run_try) simp_all
  then have "emits (run h) ?Q"
    by (rule emits_run) simp
  then have "\<forall>e \<in> set (snd (run h [])). ?Q e"
    by (rule emits_all)
  with mem have 1: "?gate \<and> t = JStr (getInput h ''github-token'') \<and> ow = context_repo_owner h
                 \<and> rp = context_repo_repo h"
    by blast
  obtain r P where front: "run_front h [] = (r, P)"
    by (cases "run_front h []")
  have "\<exists>g ct. r = Inr (g, ct)"
  proof (cases r)
    case (Inl e)
    with front have "snd (run h []) = P @ [SetFailed (''Action failed with error: '' @ message e)]"
      by (simp add: run_of_raise run_try_of_front_raise)
    moreover have "\<forall>e \<in> set P. \<not> is_ReposGet e"
      using front_no_fetch [of h] front by simp
    ultimately show ?thesis using mem by auto
  next
    case (Inr gc)
    then show ?thesis by (cases gc) simp
  qed
  with front 1 show ?thesis by blast
qed

lemma symbol_ends_run:
  assumes mem: "ReposGet t ow rp \<in> set (snd (run h []))"
    and res: "repos_get h t ow rp = Inr d"
    and sym: "is_symbol (full_name d) \<or> is_symbol (stargazers_count d) \<or> is_symbol (forks_count d)
         \<or> is_symbol (open_issues_count d) \<or> is_symbol (data_language d)"
  shows "last (snd (run h [])) =
           SetFailed ''Action failed with error: Cannot convert a Symbol value to a string''
         \<and> SetSecret ''my-secret-value'' \<notin> set (snd (run h []))"
proof -
  let ?i = "get_inputs h"
  let ?Q = "\<lambda>e. \<not> is_SetSecret e"
  have tok: "githubToken ?i = getInput h ''github-token''"
    by (simp add: get_inputs_def)
  from fetch_reached [OF mem] obtain g ct P where
    gate: "githubToken ?i \<noteq> [] \<and> truthy (context_repo_owner h) \<and> truthy (context_repo_repo h)"
    and eq: "t = JStr (githubToken ?i)" "ow = context_repo_owner h" "rp = context_repo_repo h"
    and front: "run_front h [] = (Inr (g, ct), P)"
    unfolding tok by blast
  from res eq
  have res': "repos_get h (JStr (githubToken ?i)) (context_repo_owner h) (context_repo_repo h) = Inr d"
    by simp
  obtain s' where stats: "stats_step h ?i P =
      (Inl (TypeError ''Cannot convert a Symbol value to a string''), s')"
    using stats_step_symbol [OF gate res' sym, of P] by (cases "stats_step h ?i P") simp
  then have "run_try h [] = (Inl (TypeError ''Cannot convert a Symbol value to a string''), s')"
    unfolding run_try_of_front_return [OF front] by (simp add: bind_def)
  from run_of_raise [OF this]
  have run: "snd (run h []) =
      s' @ [SetFailed ''Action failed with error: Cannot convert a Symbol value to a string'']"
    by simp
  have "emits (run_front h) ?Q"
    by (rule emits_run_front) simp_all
  from emits_all [OF this] front have P: "\<forall>e \<in> set P. ?Q e" by simp
  have "emits (stats_step h ?i) ?Q"
    by (rule emits_stats_step) simp_all
  from emitsD [OF this, of P] stats P have "\<forall>e \<in> set s'. ?Q e"
    by (auto simp add: list_all_iff)
  then have "SetSecret ''my-secret-value'' \<notin> set s'" by auto
  with run show ?thesis by simp
qed

lemma nullish_ends_run:
  assumes mem: "ReposGet t ow rp \<in> set (snd (run h []))"
    and res: "repos_get h t ow rp = Inr d"
    and plain: "\<not> (is_symbol (full_name d) \<or> is_symbol (stargazers_count d)
         \<or> is_symbol (forks_count d) \<or> is_symbol (open_issues_count d)
         \<or> is_symbol (data_language d))"
    and out: "setOutput_throws h ''repo-stats'' (JSON_stringify h (stats_of d)) = None"
    and tbl: "summaryTable g b ct (Some (stats_of d)) = Inl e"
  shows "\<exists>before. snd (run h []) =
           before @ [SetSecret ''my-secret-value'',
                     SetFailed (''Action failed with error: '' @ message e)]"
proof -
  let ?i = "get_inputs h"
  have tok: "githubToken ?i = getInput h ''github-token''"
    by (simp add: get_inputs_def)
  from fetch_reached [OF mem] obtain g0 ct0 P where
    gate: "githubToken ?i \<noteq> [] \<and> truthy (context_repo_owner h) \<and> truthy (context_repo_repo h)"
    and eq: "t = JStr (githubToken ?i)" "ow = context_repo_owner h" "rp = context_repo_repo h"
    and front: "run_front h [] = (Inr (g0, ct0), P)"
    unfolding tok by blast
  from res eq
  have res': "repos_get h (JStr (githubToken ?i)) (context_repo_owner h) (context_repo_repo h) = Inr d"
    by simp
  obtain P2 where stats: "stats_step h ?i P = (Inr (Some (stats_of d)), P2)"
    using stats_step_plain [OF gate res' plain out, of P] by (cases "stats_step h ?i P") simp
  have "summaryTable g0 (includeTime ?i) ct0 (Some (stats_of d)) = Inl e"
    using tbl by (rule summaryTable_error_indep)
  then have "run_try h [] = (Inl e, P2 @ [SetSecret ''my-secret-value''])"
    unfolding run_try_of_front_return [OF front] using stats
    by (simp add: bind_def run_back_apply)
  from run_of_raise [OF this] show ?thesis by simp
qed

lemma summaryTable_nullish:
  "(toString (stars rs) = Inl e \<longrightarrow> summaryTable g b ct (Some rs) = Inl e)
   \<and> (toString (stars rs) = Inr a \<and> toString (forks rs) = Inl e \<longrightarrow>
        summaryTable g b ct (Some rs) = Inl e)
   \<and> (toString (stars rs) = Inr a \<and> toString (forks rs) = Inr c \<and> toString (issues rs) = Inl e \<longrightarrow>
        summaryTable g b ct (Some rs) = Inl e)"
  by (simp add: summaryTable_def and_then_def)

section \<open>Properties of the run\<close>

lemma run_catches:
  "(run_try h s = (Inl e, s') \<longrightarrow>
      run h s = (Inr (), s' @ [SetFailed (''Action failed with error: '' @ message e)]))
   \<and> (run_try h s = (Inr x, s') \<longrightarrow> run h s = (Inr (), s'))
   \<and> fst (run h s) = Inr ()
   \<and> (setOutput_throws h ''message''
          (messagePrefix (get_inputs h) @ '', '' @ whoToGreet (get_inputs h) @ ''!'')
        = Some (Error ''Test error'') \<longrightarrow>
      snd (run h []) =
        [Info ''Starting Hello World Action...'',
         Info (''Who to greet: '' @ whoToGreet (get_inputs h)),
         Info (''Message prefix: '' @ messagePrefix (get_inputs h)),
         Info (''Include time: '' @ (if includeTime (get_inputs h) then ''true'' else ''false'')),
         Info (''GitHub token provided: ''
                 @ (if githubToken (get_inputs h) \<noteq> [] then ''Yes'' else ''No'')),
         Info (''Generated greeting: ''
                 @ messagePrefix (get_inputs h) @ '', '' @ whoToGreet (get_inputs h) @ ''!''),
         SetOutput ''message''
           (messagePrefix (get_inputs h) @ '', '' @ whoToGreet (get_inputs h) @ ''!''),
         SetFailed ''Action failed with error: Test error''])"
proof -
  have 1: "run_try h s = (Inl e, s') \<longrightarrow>
      run h s = (Inr (), s' @ [SetFailed (''Action failed with error: '' @ message e)])"
    by (simp add: run_of_raise)
  have 2: "run_try h s = (Inr x, s') \<longrightarrow> run h s = (Inr (), s')"
    by (simp add: run_of_return)
  have 3: "fst (run h s) = Inr ()"
    by (cases "run_try h s"; cases "fst (run_try h s)") (simp_all add: run_of_raise run_of_return)
  have 4: "snd (run h []) =
        [Info ''Starting Hello World Action...'',
         Info (''Who to greet: '' @ whoToGreet (get_inputs h)),
         Info (''Message prefix: '' @ messagePrefix (get_inputs h)),
         Info (''Include time: '' @ (if includeTime (get_inputs h) then ''true'' else ''false'')),
         Info (''GitHub token provided: ''
                 @ (if githubToken (get_inputs h) \<noteq> [] then ''Yes'' else ''No'')),
         Info (''Generated greeting: ''
                 @ messagePrefix (get_inputs h) @ '', '' @ whoToGreet (get_inputs h) @ ''!''),
         SetOutput ''message''
           (messagePrefix (get_inputs h) @ '', '' @ whoToGreet (get_inputs h) @ ''!''),
         SetFailed ''Action failed with error: Test error'']"
    if a: "setOutput_throws h ''message''
          (messagePrefix (get_inputs h) @ '', '' @ whoToGreet (get_inputs h) @ ''!'')
        = Some (Error ''Test error'')"
  proof -
    have "run_front h [] =
       (Inl (Error ''Test error''),
        [Info ''Starting Hello World Action...'',
         Info (''Who to greet: '' @ whoToGreet (get_inputs h)),
         Info (''Message prefix: '' @ messagePrefix (get_inputs h)),
         Info (''Include time: '' @ (if includeTime (get_inputs h) then ''true'' else ''false'')),
         Info (''GitHub token provided: ''
                 @ (if githubToken (get_inputs h) \<noteq> [] then ''Yes'' else ''No'')),
         Info (''Generated greeting: ''
                 @ messagePrefix (get_inputs h) @ '', '' @ whoToGreet (get_inputs h) @ ''!''),
         SetOutput ''message''
           (messagePrefix (get_inputs h) @ '', '' @ whoToGreet (get_inputs h) @ ''!'')])"
      using a
      by (simp add: run_front_def Let_def log_inputs_def greeting_step_def createGreeting_def
          core_setOutput_def core_info_def bind_def lift_def seq_def host_call_def)
    then show ?thesis
      by (simp add: run_of_raise run_try_of_front_raise)
  qed
  from 1 2 3 4 show ?thesis by blast
qed

text \<open>
  A request that rejects and a summary that cannot be written are handled where they
  occur, by \<open>getRepoStats\<close> and by the fallback of the summary: they are not exceptions
  of a step of \<open>run\<close>, and the run goes on to its last line.
\<close>

lemma handled_in_place:
  "summary_write_throws mock_host_no_summary summary_heading mock_table
       = Some (Error ''Unable to find environment variable for $GITHUB_STEP_SUMMARY'')
   \<and> SummaryWrite summary_heading mock_table \<in> set (snd (run mock_host_no_summary []))
   \<and> SetFailed ''Action failed with error: Unable to find environment variable for $GITHUB_STEP_SUMMARY''
       \<notin> set (snd (run mock_host_no_summary []))
   \<and> last (snd (run mock_host_no_summary [])) = Info completed_line
   \<and> repos_get mock_host_token (JStr ''test-token'') (JStr ''test-owner'') (JStr ''test-repo'')
       = Inl (Error ''API Error'')
   \<and> ReposGet (JStr ''test-token'') (JStr ''test-owner'') (JStr ''test-repo'')
       \<in> set (snd (run mock_host_token []))
   \<and> SetFailed ''Action failed with error: API Error'' \<notin> set (snd (run mock_host_token []))
   \<and> last (snd (run mock_host_token [])) = Info completed_line"
  by code_simp

text \<open>
  C2. Every exception raised in a step of \<open>run\<close> ends the run there, is reported by one
  call of \<^verbatim>\<open>core.setFailed\<close> with \<^verbatim>\<open>Action failed with error: \<close> and the exception's message,
  and \<open>run\<close> returns; it never throws. In the conjuncts' order: \<open>run\<close> returns; what
  leaves the \<^verbatim>\<open>try\<close> block is reported, with nothing after the trace it left; when nothing
  leaves the block no failure is reported; a call of \<^verbatim>\<open>core.setOutput\<close> that throws
  (\<^verbatim>\<open>message\<close>, \<^verbatim>\<open>time\<close> or \<^verbatim>\<open>repo-stats\<close>) is followed by the report of its error, which is
  the run's last call; when the request has resolved with a Symbol among the values
  that the log lines print, the TypeError of the template literal is reported last and
  the steps after the statistics are not made; when a count of the response has no
  \<^verbatim>\<open>toString\<close>, so that building the summary table throws, the report follows the call of
  \<^verbatim>\<open>core.setSecret\<close> and is the last call; the table throws the TypeError of the first count
  that is \<^verbatim>\<open>undefined\<close> or \<^verbatim>\<open>null\<close>; and when setting the output \<^verbatim>\<open>message\<close> throws
  \<^verbatim>\<open>Error('Test error')\<close>, the trace is the six log lines, that call, and the report
  \<^verbatim>\<open>Action failed with error: Test error\<close>.
\<close>

theorem run_reports_failure:
  "fst (run h s) = Inr ()
   \<and> (run_try h s = (Inl e, s') \<longrightarrow>
        run h s = (Inr (), s' @ [SetFailed (''Action failed with error: '' @ message e)]))
   \<and> (run_try h s = (Inr x, s') \<longrightarrow> run h s = (Inr (), s'))
   \<and> (SetOutput n v \<in> set (snd (run h [])) \<and> setOutput_throws h n v = Some e \<longrightarrow>
        (\<exists>before. snd (run h []) =
           before @ [SetOutput n v, SetFailed (''Action failed with error: '' @ message e)]))
   \<and> (ReposGet t ow rp \<in> set (snd (run h [])) \<and> repos_get h t ow rp = Inr d
        \<and> (is_symbol (full_name d) \<or> is_symbol (stargazers_count d)
             \<or> is_symbol (forks_count d) \<or> is_symbol (open_issues_count d)
             \<or> is_symbol (data_language d)) \<longrightarrow>
        last (snd (run h [])) =
          SetFailed ''Action failed with error: Cannot convert a Symbol value to a string''
        \<and> SetSecret ''my-secret-value'' \<notin> set (snd (run h [])))
   \<and> (ReposGet t ow rp \<in> set (snd (run h [])) \<and> repos_get h t ow rp = Inr d
        \<and> \<not> (is_symbol (full_name d) \<or> is_symbol (stargazers_count d)
             \<or> is_symbol (forks_count d) \<or> is_symbol (open_issues_count d)
             \<or> is_symbol (data_language d))
        \<and> setOutput_throws h ''repo-stats'' (JSON_stringify h (stats_of d)) = None
        \<and> summaryTable g b ct (Some (stats_of d)) = Inl e \<longrightarrow>
        (\<exists>before. snd (run h []) =
           before @ [SetSecret ''my-secret-value'',
                     SetFailed (''Action failed with error: '' @ message e)]))
   \<and> (toString (stars rs) = Inl e \<longrightarrow> summaryTable g b ct (Some rs) = Inl e)
   \<and> (toString (stars rs) = Inr a \<and> toString (forks rs) = Inl e \<longrightarrow>
        summaryTable g b ct (Some rs) = Inl e)
   \<and> (toString (stars rs) = Inr a \<and> toString (forks rs) = Inr c
        \<and> toString (issues rs) = Inl e \<longrightarrow>
        summaryTable g b ct (Some rs) = Inl e)
   \<and> (setOutput_throws h ''message''
          (messagePrefix (get_inputs h) @ '', '' @ whoToGreet (get_inputs h) @ ''!'')
        = Some (Error ''Test error'') \<longrightarrow>
      snd (run h []) =
        [Info ''Starting Hello World Action...'',
         Info (''Who to greet: '' @ whoToGreet (get_inputs h)),
         Info (''Message prefix: '' @ messagePrefix (get_inputs h)),
         Info (''Include time: '' @ (if includeTime (get_inputs h) then ''true'' else ''false'')),
         Info (''GitHub token provided: ''
                 @ (if githubToken (get_inputs h) \<noteq> [] then ''Yes'' else ''No'')),
         Info (''Generated greeting: ''
                 @ messagePrefix (get_inputs h) @ '', '' @ whoToGreet (get_inputs h) @ ''!''),
         SetOutput ''message''
           (messagePrefix (get_inputs h) @ '', '' @ whoToGreet (get_inputs h) @ ''!''),
         SetFailed ''Action failed with error: Test error''])"
proof -
  note c = run_catches [of h s e s' x]
  have 1: "fst (run h s) = Inr ()" using c by simp
  have 2: "run_try h s = (Inl e, s') \<longrightarrow>
        run h s = (Inr (), s' @ [SetFailed (''Action failed with error: '' @ message e)])"
    by (simp add: run_of_raise)
  have 3: "run_try h s = (Inr x, s') \<longrightarrow> run h s = (Inr (), s')"
    by (simp add: run_of_return)
  have 4: "SetOutput n v \<in> set (snd (run h [])) \<and> setOutput_throws h n v = Some e \<longrightarrow>
        (\<exists>before. snd (run h []) =
           before @ [SetOutput n v, SetFailed (''Action failed with error: '' @ message e)])"
    using throwing_output_ends_run [of n v h e] by blast
  have 5: "ReposGet t ow rp \<in> set (snd (run h [])) \<and> repos_get h t ow rp = Inr d
        \<and> (is_symbol (full_name d) \<or> is_symbol (stargazers_count d)
             \<or> is_symbol (forks_count d) \<or> is_symbol (open_issues_count d)
             \<or> is_symbol (data_language d)) \<longrightarrow>
        last (snd (run h [])) =
          SetFailed ''Action failed with error: Cannot convert a Symbol value to a string''
        \<and> SetSecret ''my-secret-value'' \<notin> set (snd (run h []))"
    using symbol_ends_run [of t ow rp h d] by blast
  have 6: "ReposGet t ow rp \<in> set (snd (run h [])) \<and> repos_get h t ow rp = Inr d
        \<and> \<not> (is_symbol (full_name d) \<or> is_symbol (stargazers_count d)
             \<or> is_symbol (forks_count d) \<or> is_symbol (open_issues_count d)
             \<or> is_symbol (data_language d))
        \<and> setOutput_throws h ''repo-stats'' (JSON_stringify h (stats_of d)) = None
        \<and> summaryTable g b ct (Some (stats_of d)) = Inl e \<longrightarrow>
        (\<exists>before. snd (run h []) =
           before @ [SetSecret ''my-secret-value'',
                     SetFailed (''Action failed with error: '' @ message e)])"
    using nullish_ends_run [of t ow rp h d g b ct e] by blast
  note 7 = summaryTable_nullish [of rs e g b ct a c]
  have 8: "setOutput_throws h ''message''
          (messagePrefix (get_inputs h) @ '', '' @ whoToGreet (get_inputs h) @ ''!'')
        = Some (Error ''Test error'') \<longrightarrow>
      snd (run h []) =
        [Info ''Starting Hello World Action...'',
         Info (''Who to greet: '' @ whoToGreet (get_inputs h)),
         Info (''Message prefix: '' @ messagePrefix (get_inputs h)),
         Info (''Include time: '' @ (if includeTime (get_inputs h) then ''true'' else ''false'')),
         Info (''GitHub token provided: ''
                 @ (if githubToken (get_inputs h) \<noteq> [] then ''Yes'' else ''No'')),
         Info (''Generated greeting: ''
                 @ messagePrefix (get_inputs h) @ '', '' @ whoToGreet (get_inputs h) @ ''!''),
         SetOutput ''message''
           (messagePrefix (get_inputs h) @ '', '' @ whoToGreet (get_inputs h) @ ''!''),
         SetFailed ''Action failed with error: Test error'']"
    using c by blast
  show ?thesis
    by (intro conjI 1 2 3 4 5 6 7 [THEN conjunct1] 7 [THEN conjunct2, THEN conjunct1]
        7 [THEN conjunct2, THEN conjunct2] 8)
qed

theorem run_reports_failure_witness:
  "fst (run mock_host []) = Inr ()
   \<and> run_try mock_host [] =
       (Inr (),
        [Info ''Starting Hello World Action...'',
         Info ''Who to greet: World'',
         Info ''Message prefix: Hello'',
         Info ''Include time: false'',
         Info ''GitHub token provided: No'',
         Info ''Generated greeting: Hello, World!'',
         SetOutput ''message'' ''Hello, World!'',
         SetSecret ''my-secret-value'',
         SummaryWrite summary_heading mock_table,
         Info completed_line])
   \<and> run mock_host [] = run_try mock_host []
   \<and> setOutput_throws mock_host_output_fails ''message'' ''Hello, World!''
       = Some (Error ''Test error'')
   \<and> run_try mock_host_output_fails [] =
       (Inl (Error ''Test error''),
        [Info ''Starting Hello World Action...'',
         Info ''Who to greet: World'',
         Info ''Message prefix: Hello'',
         Info ''Include time: false'',
         Info ''GitHub token provided: No'',
         Info ''Generated greeting: Hello, World!'',
         SetOutput ''message'' ''Hello, World!''])
   \<and> run mock_host_output_fails [] =
       (Inr (),
        [Info ''Starting Hello World Action...'',
         Info ''Who to greet: World'',
         Info ''Message prefix: Hello'',
         Info ''Include time: false'',
         Info ''GitHub token provided: No'',
         Info ''Generated greeting: Hello, World!'',
         SetOutput ''message'' ''Hello, World!'',
         SetFailed ''Action failed with error: Test error''])
   \<and> SetOutput ''time'' ''2023-01-01T12:00:00.000Z'' \<in> set (snd (run mock_host_time_fails []))
   \<and> setOutput_throws mock_host_time_fails ''time'' ''2023-01-01T12:00:00.000Z''
       = Some (Error ''disk full'')
   \<and> (\<exists>before. snd (run mock_host_time_fails []) =
         before @ [SetOutput ''time'' ''2023-01-01T12:00:00.000Z'',
                   SetFailed ''Action failed with error: disk full''])
   \<and> ReposGet (JStr ''test-token'') (JStr ''test-owner'') (JStr ''test-repo'')
       \<in> set (snd (run mock_host_symbol []))
   \<and> repos_get mock_host_symbol (JStr ''test-token'') (JStr ''test-owner'') (JStr ''test-repo'')
       = Inr symbol_data
   \<and> is_symbol (data_language symbol_data)
   \<and> last (snd (run mock_host_symbol [])) =
       SetFailed ''Action failed with error: Cannot convert a Symbol value to a string''
   \<and> SetSecret ''my-secret-value'' \<notin> set (snd (run mock_host_symbol []))
   \<and> ReposGet (JStr ''test-token'') (JStr ''test-owner'') (JStr ''test-repo'')
       \<in> set (snd (run mock_host_no_stars []))
   \<and> repos_get mock_host_no_stars (JStr ''test-token'') (JStr ''test-owner'') (JStr ''test-repo'')
       = Inr no_stars_data
   \<and> toString (stars (stats_of no_stars_data))
       = Inl (TypeError ''Cannot read properties of undefined (reading 'toString')'')
   \<and> summaryTable [] False JNull (Some (stats_of no_stars_data))
       = Inl (TypeError ''Cannot read properties of undefined (reading 'toString')'')
   \<and> (\<exists>before. snd (run mock_host_no_stars []) =
         before @ [SetSecret ''my-secret-value'',
                   SetFailed ''Action failed with error: Cannot read properties of undefined (reading 'toString')''])
   \<and> toString (stars (stats_of (mockRepoData\<lparr>forks_count := JNull\<rparr>))) = Inr ''42''
   \<and> toString (forks (stats_of (mockRepoData\<lparr>forks_count := JNull\<rparr>)))
       = Inl (TypeError ''Cannot read properties of null (reading 'toString')'')
   \<and> summaryTable [] False JNull (Some (stats_of (mockRepoData\<lparr>forks_count := JNull\<rparr>)))
       = Inl (TypeError ''Cannot read properties of null (reading 'toString')'')
   \<and> toString (forks (stats_of (mockRepoData\<lparr>open_issues_count := JNull\<rparr>))) = Inr ''7''
   \<and> toString (issues (stats_of (mockRepoData\<lparr>open_issues_count := JNull\<rparr>)))
       = Inl (TypeError ''Cannot read properties of null (reading 'toString')'')
   \<and> summaryTable [] False JNull (Some (stats_of (mockRepoData\<lparr>open_issues_count := JNull\<rparr>)))
       = Inl (TypeError ''Cannot read properties of null (reading 'toString')'')"
proof -
  let ?tk = "JStr ''test-token''" and ?ow = "JStr ''test-owner''" and ?rp = "JStr ''test-repo''"
  let ?now = "''2023-01-01T12:00:00.000Z''"
  let ?undef = "TypeError ''Cannot read properties of undefined (reading 'toString')''"
  let ?null = "TypeError ''Cannot read properties of null (reading 'toString')''"
  let ?r2 = "stats_of (mockRepoData\<lparr>forks_count := JNull\<rparr>)"
  let ?r3 = "stats_of (mockRepoData\<lparr>open_issues_count := JNull\<rparr>)"
  note T = run_reports_failure
  have a1: "fst (run mock_host []) = Inr ()"
    using T [where h = mock_host and s = "[]"] by blast
  have a2: "run_try mock_host [] =
       (Inr (),
        [Info ''Starting Hello World Action...'',
         Info ''Who to greet: World'',
         Info ''Message prefix: Hello'',
         Info ''Include time: false'',
         Info ''GitHub token provided: No'',
         Info ''Generated greeting: Hello, World!'',
         SetOutput ''message'' ''Hello, World!'',
         SetSecret ''my-secret-value'',
         SummaryWrite summary_heading mock_table,
         Info completed_line])"
    by code_simp
  have a3: "run mock_host [] = run_try mock_host []"
    using T [where h = mock_host and s = "[]" and x = "()"] a2 by simp
  have b1: "setOutput_throws mock_host_output_fails ''message'' ''Hello, World!''
       = Some (Error ''Test error'')"
    by (simp add: mock_host_output_fails_def output_test_error_def)
  have b2: "run_try mock_host_output_fails [] =
       (Inl (Error ''Test error''),
        [Info ''Starting Hello World Action...'',
         Info ''Who to greet: World'',
         Info ''Message prefix: Hello'',
         Info ''Include time: false'',
         Info ''GitHub token provided: No'',
         Info ''Generated greeting: Hello, World!'',
         SetOutput ''message'' ''Hello, World!''])"
    by code_simp
  have b3: "run mock_host_output_fails [] =
       (Inr (),
        [Info ''Starting Hello World Action...'',
         Info ''Who to greet: World'',
         Info ''Message prefix: Hello'',
         Info ''Include time: false'',
         Info ''GitHub token provided: No'',
         Info ''Generated greeting: Hello, World!'',
         SetOutput ''message'' ''Hello, World!'',
         SetFailed ''Action failed with error: Test error''])"
    using T [where h = mock_host_output_fails and s = "[]" and e = "Error ''Test error''"] b2
    by simp
  have c1: "SetOutput ''time'' ?now \<in> set (snd (run mock_host_time_fails []))"
    by code_simp
  have c2: "setOutput_throws mock_host_time_fails ''time'' ?now = Some (Error ''disk full'')"
    by (simp add: mock_host_time_fails_def time_output_error_def)
  have c3: "\<exists>before. snd (run mock_host_time_fails []) =
         before @ [SetOutput ''time'' ?now, SetFailed ''Action failed with error: disk full'']"
    using T [where h = mock_host_time_fails and n = "''time''" and v = ?now
        and e = "Error ''disk full''"] c1 c2
    by simp
  have d1: "ReposGet ?tk ?ow ?rp \<in> set (snd (run mock_host_symbol []))"
    by code_simp
  have d2: "repos_get mock_host_symbol ?tk ?ow ?rp = Inr symbol_data"
    by (simp add: mock_host_symbol_def mock_resolved_symbol_def)
  have d3: "is_symbol (data_language symbol_data)"
    by (simp add: symbol_data_def)
  have d4: "last (snd (run mock_host_symbol [])) =
       SetFailed ''Action failed with error: Cannot convert a Symbol value to a string''
     \<and> SetSecret ''my-secret-value'' \<notin> set (snd (run mock_host_symbol []))"
    using T [where h = mock_host_symbol and t = ?tk and ow = ?ow and rp = ?rp
        and d = symbol_data] d1 d2 d3
    by blast
  have e1: "ReposGet ?tk ?ow ?rp \<in> set (snd (run mock_host_no_stars []))"
    by code_simp
  have e2: "repos_get mock_host_no_stars ?tk ?ow ?rp = Inr no_stars_data"
    by (simp add: mock_host_no_stars_def mock_resolved_no_stars_def)
  have e3: "\<not> (is_symbol (full_name no_stars_data) \<or> is_symbol (stargazers_count no_stars_data)
             \<or> is_symbol (forks_count no_stars_data) \<or> is_symbol (open_issues_count no_stars_data)
             \<or> is_symbol (data_language no_stars_data))"
    by (simp add: no_stars_data_def mockRepoData_def)
  have e4: "setOutput_throws mock_host_no_stars ''repo-stats''
              (JSON_stringify mock_host_no_stars (stats_of no_stars_data)) = None"
    by (simp add: mock_host_no_stars_def mock_host_token_def mock_host_def no_output_error_def)
  have e5: "toString (stars (stats_of no_stars_data)) = Inl ?undef"
    by (simp add: stats_of_def no_stars_data_def)
  have e6: "summaryTable [] False JNull (Some (stats_of no_stars_data)) = Inl ?undef"
    using T [where rs = "stats_of no_stars_data" and e = ?undef and g = "[]" and b = False
        and ct = JNull] e5
    by blast
  have e7: "\<exists>before. snd (run mock_host_no_stars []) =
         before @ [SetSecret ''my-secret-value'',
                   SetFailed ''Action failed with error: Cannot read properties of undefined (reading 'toString')'']"
    using T [where h = mock_host_no_stars and t = ?tk and ow = ?ow and rp = ?rp
        and d = no_stars_data and g = "[]" and b = False and ct = JNull and e = ?undef]
      e1 e2 e3 e4 e6
    by simp
  have f1: "toString (stars ?r2) = Inr ''42''" "toString (forks ?r2) = Inl ?null"
    by (code_simp, simp add: stats_of_def mockRepoData_def)
  have f2: "summaryTable [] False JNull (Some ?r2) = Inl ?null"
    using T [where rs = ?r2 and e = ?null and g = "[]" and b = False and ct = JNull
        and a = "''42''"] f1
    by blast
  have g1: "toString (stars ?r3) = Inr ''42''" "toString (forks ?r3) = Inr ''7''"
    "toString (issues ?r3) = Inl ?null"
    by (code_simp, code_simp, simp add: stats_of_def mockRepoData_def)
  have g2: "summaryTable [] False JNull (Some ?r3) = Inl ?null"
    using T [where rs = ?r3 and e = ?null and g = "[]" and b = False and ct = JNull
        and a = "''42''" and c = "''7''"] g1
    by blast
  show ?thesis
    by (intro conjI a1 a2 a3 b1 b2 b3 c1 c2 c3 d1 d2 d3 d4 [THEN conjunct1] d4 [THEN conjunct2]
        e1 e2 e5 e6 e7 f1 f2 g1(2,3) g2)
qed

text \<open>
  C5. In every run, a request for the repository's metadata is made only with a token
  that is not empty and with an owner and a repository that are both present (truthy),
  and it is made with that token, owner and repository. When the token is empty or the
  owner or the repository is absent, the run makes no request and never sets the output
  \<^verbatim>\<open>repo-stats\<close>.
\<close>

theorem stats_fetch_gated:
  "(ReposGet t ow rp \<in> set (snd (run h [])) \<longrightarrow>
      getInput h ''github-token'' \<noteq> [] \<and> truthy (context_repo_owner h) \<and> truthy (context_repo_repo h)
      \<and> t = JStr (getInput h ''github-token'') \<and> ow = context_repo_owner h \<and> rp = context_repo_repo h)
   \<and> (getInput h ''github-token'' = [] \<or> \<not> truthy (context_repo_owner h) \<or> \<not> truthy (context_repo_repo h) \<longrightarrow>
      ReposGet t ow rp \<notin> set (snd (run h [])) \<and> SetOutput ''repo-stats'' v \<notin> set (snd (run h [])))"
proof -
  let ?gate = "getInput h ''github-token'' \<noteq> [] \<and> truthy (context_repo_owner h) \<and> truthy (context_repo_repo h)"
  let ?Q = "\<lambda>e. (\<forall>t ow rp. e = ReposGet t ow rp \<longrightarrow>
                 ?gate \<and> t = JStr (getInput h ''github-token'') \<and> ow = context_repo_owner h
                 \<and> rp = context_repo_repo h)
              \<and> (\<forall>v. e = SetOutput ''repo-stats'' v \<longrightarrow> ?gate)"
  have "emits (run_try h) ?Q"
    by (rule emits_run_try) simp_all
  then have "emits (run h) ?Q"
    by (rule emits_run) simp
  then have "\<forall>e \<in> set (snd (run h [])). ?Q e"
    by (rule emits_all)
  then show ?thesis by auto
qed

theorem stats_fetch_gated_witness:
  "ReposGet (JStr ''test-token'') (JStr ''test-owner'') (JStr ''test-repo'')
     \<in> set (snd (run mock_host_token []))
   \<and> getInput mock_host_token ''github-token'' = ''test-token''
   \<and> context_repo_owner mock_host_token = JStr ''test-owner''
   \<and> context_repo_repo mock_host_token = JStr ''test-repo''
   \<and> getInput mock_host ''github-token'' = []
   \<and> ReposGet (JStr ''test-token'') (JStr ''test-owner'') (JStr ''test-repo'')
       \<notin> set (snd (run mock_host []))
   \<and> SetOutput ''repo-stats'' ''{}'' \<notin> set (snd (run mock_host []))"
proof -
  have 1: "ReposGet (JStr ''test-token'') (JStr ''test-owner'') (JStr ''test-repo'')
     \<in> set (snd (run mock_host_token []))"
    by code_simp
  have 2: "getInput mock_host ''github-token'' = []"
    by code_simp
  have 3: "getInput mock_host_token ''github-token'' = ''test-token''"
    by code_simp
  have 4: "context_repo_owner mock_host_token = JStr ''test-owner''"
    "context_repo_repo mock_host_token = JStr ''test-repo''"
    by (simp_all add: mock_host_token_def mock_host_def)
  from stats_fetch_gated [of "JStr ''test-token''" "JStr ''test-owner''" "JStr ''test-repo''"
      mock_host "''{}''"] 2
  have "ReposGet (JStr ''test-token'') (JStr ''test-owner'') (JStr ''test-repo'')
       \<notin> set (snd (run mock_host []))
     \<and> SetOutput ''repo-stats'' ''{}'' \<notin> set (snd (run mock_host []))"
    by simp
  moreover
  from stats_fetch_gated [of "JStr ''test-token''" "JStr ''test-owner''" "JStr ''test-repo''"
      mock_host_token "''{}''"] 1
  have "getInput mock_host_token ''github-token'' \<noteq> []"
    by simp
  ultimately show ?thesis using 1 2 3 4 by simp
qed

text \<open>
  C7. A run whose inputs \<^verbatim>\<open>who-to-greet\<close> and \<^verbatim>\<open>message-prefix\<close> are \<^verbatim>\<open>World\<close> and
  \<^verbatim>\<open>Hello\<close>, or are not set, and which has no token: the name and the prefix it uses are
  \<^verbatim>\<open>World\<close> and \<^verbatim>\<open>Hello\<close> (the defaults, when unset); it sets the output \<^verbatim>\<open>message\<close>
  to \<^verbatim>\<open>Hello, World!\<close> and to nothing else; it never sets the output \<^verbatim>\<open>repo-stats\<close>; and
  it never requests the repository's metadata.
\<close>

theorem default_run:
  assumes "getInput h ''who-to-greet'' = ''World'' \<or> getInput h ''who-to-greet'' = []"
    and "getInput h ''message-prefix'' = ''Hello'' \<or> getInput h ''message-prefix'' = []"
    and "getInput h ''github-token'' = []"
  shows "whoToGreet (get_inputs h) = ''World'' \<and> messagePrefix (get_inputs h) = ''Hello''
     \<and> SetOutput ''message'' ''Hello, World!'' \<in> set (snd (run h []))
     \<and> (SetOutput ''message'' v \<in> set (snd (run h [])) \<longrightarrow> v = ''Hello, World!'')
     \<and> SetOutput ''repo-stats'' v' \<notin> set (snd (run h []))
     \<and> ReposGet t ow rp \<notin> set (snd (run h []))"
proof -
  have w: "whoToGreet (get_inputs h) = ''World''" and p: "messagePrefix (get_inputs h) = ''Hello''"
    using assms(1,2) by (auto simp add: get_inputs_def or_string_def)
  have "SetOutput ''message'' ''Hello, World!'' \<in> set (snd (run_front h []))"
    using run_front_message [of h "[]"] by (simp add: w p)
  then have m: "SetOutput ''message'' ''Hello, World!'' \<in> set (snd (run h []))"
    using set_mono_prefix [OF run_prefix_front [of h "[]"]] by auto
  let ?Q = "\<lambda>e. (\<forall>t ow rp. e \<noteq> ReposGet t ow rp) \<and> (\<forall>v. e \<noteq> SetOutput ''repo-stats'' v)
              \<and> (\<forall>v. e = SetOutput ''message'' v \<longrightarrow> v = ''Hello, World!'')"
  have "emits (run_try h) ?Q"
    using assms(3) by (intro emits_run_try) (simp_all add: w p)
  then have "emits (run h) ?Q"
    by (rule emits_run) simp
  then have "\<forall>e \<in> set (snd (run h [])). ?Q e"
    by (rule emits_all)
  then have all: "?Q e" if "e \<in> set (snd (run h []))" for e
    using that by (rule bspec)
  have c4: "SetOutput ''message'' v \<in> set (snd (run h [])) \<longrightarrow> v = ''Hello, World!''"
    using all [of "SetOutput ''message'' v"] by simp
  have c5: "SetOutput ''repo-stats'' v' \<notin> set (snd (run h []))"
    using all [of "SetOutput ''repo-stats'' v'"] by auto
  have c6: "ReposGet t ow rp \<notin> set (snd (run h []))"
    using all [of "ReposGet t ow rp"] by auto
  show ?thesis
    by (intro conjI w p m c4 c5 c6)
qed

theorem default_run_witness:
  "getInput mock_host ''who-to-greet'' = ''World''
   \<and> getInput mock_host ''message-prefix'' = ''Hello''
   \<and> getInput mock_host ''github-token'' = []
   \<and> SetOutput ''message'' ''Hello, World!'' \<in> set (snd (run mock_host []))
   \<and> SetOutput ''repo-stats'' ''{}'' \<notin> set (snd (run mock_host []))
   \<and> ReposGet (JStr []) (JStr ''test-owner'') (JStr ''test-repo'') \<notin> set (snd (run mock_host []))
   \<and> getInput mock_host_unset ''who-to-greet'' = []
   \<and> getInput mock_host_unset ''message-prefix'' = []
   \<and> getInput mock_host_unset ''github-token'' = []
   \<and> whoToGreet (get_inputs mock_host_unset) = ''World''
   \<and> messagePrefix (get_inputs mock_host_unset) = ''Hello''
   \<and> SetOutput ''message'' ''Hello, World!'' \<in> set (snd (run mock_host_unset []))"
proof -
  have 1: "getInput mock_host ''who-to-greet'' = ''World''"
    "getInput mock_host ''message-prefix'' = ''Hello''"
    "getInput mock_host ''github-token'' = []"
    by code_simp+
  have 2: "getInput mock_host_unset ''who-to-greet'' = []"
    "getInput mock_host_unset ''message-prefix'' = []"
    "getInput mock_host_unset ''github-token'' = []"
    by code_simp+
  from default_run [of mock_host "''Hello, World!''" "''{}''" "JStr []" "JStr ''test-owner''"
      "JStr ''test-repo''"] 1
  have a: "SetOutput ''message'' ''Hello, World!'' \<in> set (snd (run mock_host []))
    \<and> SetOutput ''repo-stats'' ''{}'' \<notin> set (snd (run mock_host []))
    \<and> ReposGet (JStr []) (JStr ''test-owner'') (JStr ''test-repo'') \<notin> set (snd (run mock_host []))"
    by simp
  from default_run [of mock_host_unset "''Hello, World!''" "''{}''" "JStr []" "JStr ''test-owner''"
      "JStr ''test-repo''"] 2
  have b: "whoToGreet (get_inputs mock_host_unset) = ''World''
    \<and> messagePrefix (get_inputs mock_host_unset) = ''Hello''
    \<and> SetOutput ''message'' ''Hello, World!'' \<in> set (snd (run mock_host_unset []))"
    by simp
  from 1 2 a b show ?thesis by simp
qed

text \<open>
  C8, as the code has it. In every run that hands a table to the summary sink and
  whose sink throws: the heading is the summary's heading; the table starts with the
  header row \<^verbatim>\<open>Field | Value\<close> and the row of the greeting; after the failed call the run
  logs the heading of the fallback, then one line \<^verbatim>\<open>field: value\<close> for each row of the table
  but the first (the header row), in order, then the line of completion; no failure is
  reported, and \<open>run\<close> returns.
\<close>

theorem summary_fallback:
  assumes sw: "SummaryWrite heading T \<in> set (snd (run h []))"
    and fail: "summary_write_throws h heading T = Some err"
  shows "heading = summary_heading
     \<and> take 2 T = [(CellObj ''Field'' True, CellObj ''Value'' True),
                    (CellVal (JStr ''Greeting''),
                     CellVal (JStr (messagePrefix (get_inputs h) @ '', ''
                                      @ whoToGreet (get_inputs h) @ ''!'')))]
     \<and> (\<exists>before lines.
           snd (run h []) =
             before @ [SummaryWrite heading T, Info fallback_heading] @ map Info lines
               @ [Info completed_line]
           \<and> map row_line (drop 1 T) = map Inr lines
           \<and> (\<forall>m. SetFailed m \<notin> set before))
     \<and> fst (run h []) = Inr ()"
proof -
  let ?Q = "\<lambda>e. \<not> is_report e"
  let ?i = "get_inputs h"
  obtain r P where front: "run_front h [] = (r, P)"
    by (cases "run_front h []")
  have "emits (run_front h) ?Q"
    by (rule emits_run_front) simp_all
  from emits_all [OF this] front have P: "\<forall>e \<in> set P. ?Q e" by simp
  show ?thesis
  proof (cases r)
    case (Inl e)
    with front have "run h [] = (Inr (), P @ [SetFailed (''Action failed with error: '' @ message e)])"
      by (simp add: run_of_raise run_try_of_front_raise)
    with sw P show ?thesis by auto
  next
    case (Inr gc)
    obtain g ct where gc: "gc = (g, ct)" by (cases gc)
    from returnsD [OF returns_run_front, of h "[]" gc P] front Inr gc
    have g: "g = messagePrefix ?i @ '', '' @ whoToGreet ?i @ ''!''"
      and ct: "\<exists>l. ToString ct = Inr l"
      by simp_all
    have t1: "run_try h [] = bind (stats_step h ?i) (\<lambda>repoStats. run_back h g ct repoStats) P"
      using front Inr gc by (simp add: run_try_of_front_return)
    obtain r2 P2 where stats: "stats_step h ?i P = (r2, P2)"
      by (cases "stats_step h ?i P")
    have "emits (stats_step h ?i) ?Q"
      by (rule emits_stats_step) simp_all
    from emitsD [OF this, of P] stats P have P2: "\<forall>e \<in> set P2. ?Q e"
      by (auto simp add: list_all_iff)
    show ?thesis
    proof (cases r2)
      case (Inl e)
      with t1 stats
      have "run h [] = (Inr (), P2 @ [SetFailed (''Action failed with error: '' @ message e)])"
        by (simp add: run_of_raise bind_def)
      with sw P2 show ?thesis by auto
    next
      case (Inr rs)
      from returnsD [OF returns_stats_step, of h ?i P rs P2] stats Inr
      have rs: "printable rs" by simp
      let ?s = "P2 @ [SetSecret ''my-secret-value'']"
      have s: "\<forall>e \<in> set ?s. ?Q e" using P2 by simp
      have t2: "run_try h [] = run_back h g ct rs P2"
        using t1 stats Inr by (simp add: bind_def)
      show ?thesis
      proof (cases "summaryTable g (includeTime ?i) ct rs")
        case (Inl e)
        with t2
        have "run h [] = (Inr (), ?s @ [SetFailed (''Action failed with error: '' @ message e)])"
          by (simp add: run_of_raise run_back_apply)
        with sw s show ?thesis by auto
      next
        case (Inr table)
        from summaryTable_rows [OF Inr ct rs]
        have head: "take 2 table = [(CellObj ''Field'' True, CellObj ''Value'' True),
                     (CellVal (JStr ''Greeting''), CellVal (JStr g))]"
          and rows: "\<forall>r \<in> set (drop 1 table). \<exists>l. row_line r = Inr l"
          by simp_all
        have t3: "run_try h [] = seq (write_summary h table) (core_info completed_line) ?s"
          using t2 Inr by (simp add: run_back_apply)
        show ?thesis
        proof (cases "summary_write_throws h summary_heading table")
          case None
          then have "run_try h [] =
              (Inr (), ?s @ [SummaryWrite summary_heading table] @ [Info completed_line])"
            using t3 by (simp add: seq_then_info write_summary_written)
          then have "snd (run h []) =
              ?s @ [SummaryWrite summary_heading table] @ [Info completed_line]"
            by (simp add: run_of_return)
          with sw s have "heading = summary_heading \<and> T = table" by auto
          with fail None show ?thesis by simp
        next
          case (Some e)
          let ?s' = "?s @ [SummaryWrite summary_heading table, Info fallback_heading]"
          from log_rows_printable [OF rows, of ?s']
          obtain lines where lines: "map row_line (drop 1 table) = map Inr lines"
            "log_rows (drop 1 table) ?s' = (Inr (), ?s' @ map Info lines)"
            by blast
          have "write_summary h table ?s = (Inr (), ?s' @ map Info lines)"
            using Some lines(2) by (simp add: write_summary_fallback)
          then have "run_try h [] = (Inr (), (?s' @ map Info lines) @ [Info completed_line])"
            using t3 by (simp only: seq_then_info)
          then have run: "run h [] = (Inr (), (?s' @ map Info lines) @ [Info completed_line])"
            by (rule run_of_return)
          with sw s have same: "heading = summary_heading \<and> T = table" by auto
          have "snd (run h []) =
              ?s @ [SummaryWrite heading T, Info fallback_heading] @ map Info lines
                @ [Info completed_line]"
            using run same by simp
          moreover have "\<forall>m. SetFailed m \<notin> set ?s" using s by auto
          ultimately show ?thesis
            using same head g lines(1) run by (intro conjI exI [of _ ?s] exI [of _ lines]) simp_all
        qed
      qed
    qed
  qed
qed

text \<open>
  The theorem at the local host: the seven rows after the header row are logged.
\<close>

theorem summary_fallback_witness:
  "SummaryWrite summary_heading local_table \<in> set (snd (run local_host []))
   \<and> summary_write_throws local_host summary_heading local_table
       = Some (Error ''Unable to find environment variable for $GITHUB_STEP_SUMMARY'')
   \<and> (\<exists>before lines.
         snd (run local_host []) =
           before @ [SummaryWrite summary_heading local_table, Info fallback_heading]
             @ map Info lines @ [Info completed_line]
         \<and> map row_line (drop 1 local_table) = map Inr lines
         \<and> (\<forall>m. SetFailed m \<notin> set before))
   \<and> map row_line (drop 1 local_table) =
       map Inr [''   Greeting: Hey, Local Developer!'',
                ''   Timestamp: 2023-01-01T12:00:00.000Z'',
                ''   Repository: test-owner/test-repo'',
                ''   '' @ stars_mark @ '' Stars: 42'',
                ''   '' @ forks_mark @ '' Forks: 7'',
                ''   '' @ issues_mark @ '' Open Issues: 3'',
                ''   '' @ language_mark @ '' Language: JavaScript'']
   \<and> fst (run local_host []) = Inr ()"
proof -
  have mem: "SummaryWrite summary_heading local_table \<in> set (snd (run local_host []))"
    by code_simp
  have fail: "summary_write_throws local_host summary_heading local_table
       = Some (Error ''Unable to find environment variable for $GITHUB_STEP_SUMMARY'')"
    by (simp add: local_host_def summary_unavailable_def)
  have lines: "map row_line (drop 1 local_table) =
       map Inr [''   Greeting: Hey, Local Developer!'',
                ''   Timestamp: 2023-01-01T12:00:00.000Z'',
                ''   Repository: test-owner/test-repo'',
                ''   '' @ stars_mark @ '' Stars: 42'',
                ''   '' @ forks_mark @ '' Forks: 7'',
                ''   '' @ issues_mark @ '' Open Issues: 3'',
                ''   '' @ language_mark @ '' Language: JavaScript'']"
    by code_simp
  note t = summary_fallback [OF mem fail]
  show ?thesis
    using t mem fail lines by blast
qed

text \<open>
  C8 as stated fails on the header row. On the mocks with a summary that cannot be
  written, the table has two rows and the fallback logs one of them: no line is logged
  for the header row, neither \<^verbatim>\<open>Field: Value\<close> nor what the loop's own template makes of
  the row's two objects.
\<close>

theorem summary_fallback_counterexample:
  "summary_write_throws mock_host_no_summary summary_heading mock_table
       = Some (Error ''Unable to find environment variable for $GITHUB_STEP_SUMMARY'')
   \<and> snd (run mock_host_no_summary []) =
       [Info ''Starting Hello World Action...'',
        Info ''Who to greet: World'',
        Info ''Message prefix: Hello'',
        Info ''Include time: false'',
        Info ''GitHub token provided: No'',
        Info ''Generated greeting: Hello, World!'',
        SetOutput ''message'' ''Hello, World!'',
        SetSecret ''my-secret-value'',
        SummaryWrite summary_heading mock_table,
        Info fallback_heading,
        Info ''   Greeting: Hello, World!'',
        Info completed_line]
   \<and> hd mock_table = (CellObj ''Field'' True, CellObj ''Value'' True)
   \<and> row_line (hd mock_table) = Inr ''   [object Object]: [object Object]''
   \<and> Info ''   [object Object]: [object Object]'' \<notin> set (snd (run mock_host_no_summary []))
   \<and> Info ''   Field: Value'' \<notin> set (snd (run mock_host_no_summary []))"
  by code_simp

text \<open>
  C9. Two runs whose hosts agree on the other inputs, on the output sink, the clock, the
  repository context and the summary sink, and whose tokens are both empty or both not
  empty, make the same calls up to the request for the repository's metadata: the log
  lines before the request do not depend on the token's value. Among them is the line
  that records the token's presence, as \<^verbatim>\<open>Yes\<close> or \<^verbatim>\<open>No\<close>.
\<close>

theorem token_value_not_logged:
  assumes "getInput h1 ''who-to-greet'' = getInput h2 ''who-to-greet''"
    and "getInput h1 ''include-time'' = getInput h2 ''include-time''"
    and "getInput h1 ''message-prefix'' = getInput h2 ''message-prefix''"
    and "(getInput h1 ''github-token'' = []) = (getInput h2 ''github-token'' = [])"
    and "setOutput_throws h1 = setOutput_throws h2"
    and "Date_toISOString h1 = Date_toISOString h2"
    and "context_repo_owner h1 = context_repo_owner h2"
    and "context_repo_repo h1 = context_repo_repo h2"
    and "summary_write_throws h1 = summary_write_throws h2"
  shows "before_fetch (snd (run h1 [])) = before_fetch (snd (run h2 []))
     \<and> Info (''GitHub token provided: ''
               @ (if getInput h1 ''github-token'' \<noteq> [] then ''Yes'' else ''No''))
         \<in> set (before_fetch (snd (run h1 [])))"
proof -
  have "prefix (snd (run_front h1 [])) (before_fetch (snd (run h1 [])))"
    using run_prefix_front front_no_fetch by (rule before_fetch_keeps)
  then have "set (snd (run_front h1 [])) \<subseteq> set (before_fetch (snd (run h1 [])))"
    by (rule set_mono_prefix)
  then have "Info (''GitHub token provided: ''
               @ (if getInput h1 ''github-token'' \<noteq> [] then ''Yes'' else ''No''))
         \<in> set (before_fetch (snd (run h1 [])))"
    using run_front_token_line [of h1 "[]"] by auto
  moreover have "before_fetch (snd (run h1 [])) = before_fetch (snd (run h2 []))"
    using assms by (rule before_fetch_cong)
  ultimately show ?thesis by simp
qed

theorem token_value_not_logged_witness:
  "getInput mock_host_token ''who-to-greet'' = getInput mock_host_other_token ''who-to-greet''
   \<and> getInput mock_host_token ''include-time'' = getInput mock_host_other_token ''include-time''
   \<and> getInput mock_host_token ''message-prefix'' = getInput mock_host_other_token ''message-prefix''
   \<and> getInput mock_host_token ''github-token'' = ''test-token''
   \<and> getInput mock_host_other_token ''github-token'' = ''ghp_another''
   \<and> setOutput_throws mock_host_token = setOutput_throws mock_host_other_token
   \<and> Date_toISOString mock_host_token = Date_toISOString mock_host_other_token
   \<and> context_repo_owner mock_host_token = context_repo_owner mock_host_other_token
   \<and> context_repo_repo mock_host_token = context_repo_repo mock_host_other_token
   \<and> summary_write_throws mock_host_token = summary_write_throws mock_host_other_token
   \<and> before_fetch (snd (run mock_host_token [])) = before_fetch (snd (run mock_host_other_token []))
   \<and> Info ''GitHub token provided: Yes'' \<in> set (before_fetch (snd (run mock_host_token [])))"
proof -
  have 1: "getInput mock_host_token ''who-to-greet'' = getInput mock_host_other_token ''who-to-greet''"
    "getInput mock_host_token ''include-time'' = getInput mock_host_other_token ''include-time''"
    "getInput mock_host_token ''message-prefix'' = getInput mock_host_other_token ''message-prefix''"
    by code_simp+
  have 2: "getInput mock_host_token ''github-token'' = ''test-token''"
    "getInput mock_host_other_token ''github-token'' = ''ghp_another''"
    by code_simp+
  have 3: "setOutput_throws mock_host_token = setOutput_throws mock_host_other_token"
    "Date_toISOString mock_host_token = Date_toISOString mock_host_other_token"
    "context_repo_owner mock_host_token = context_repo_owner mock_host_other_token"
    "context_repo_repo mock_host_token = context_repo_repo mock_host_other_token"
    "summary_write_throws mock_host_token = summary_write_throws mock_host_other_token"
    by (simp_all add: mock_host_token_def mock_host_other_token_def)
  have 4: "(getInput mock_host_token ''github-token'' = [])
             = (getInput mock_host_other_token ''github-token'' = [])"
    by (simp add: 2)
  note t = token_value_not_logged [OF 1 4 3]
  have a: "before_fetch (snd (run mock_host_token []))
             = before_fetch (snd (run mock_host_other_token []))"
    using t by (rule conjunct1)
  have b: "Info ''GitHub token provided: Yes'' \<in> set (before_fetch (snd (run mock_host_token [])))"
    using conjunct2 [OF t] by (simp add: 2)
  show ?thesis
    by (intro conjI 1 2 3 a b)
qed

end
